theory Spec2Isabelle
  imports Main
begin

text \<open>
  Wire reads the providers that a Go program declares (functions, struct types, values,
  interface bindings and sets of those) and generates injector functions from them. This
  theory embeds the functions of \<open>wire/internal/wire/parse.go\<close> that turn a declaration into
  a provider, a binding, a value or a provider set, and the injectors that Wire generated for
  the guestbook sample (\<open>samples/guestbook/wire_gen.go\<close>), and proves what they return.
\<close>

section \<open>The types of the checked program (package go/types)\<close>

text \<open>
  The parser works on a type-checked Go program. A type is a value of \<open>gotype\<close>: a named
  type carries its package path, its name, its underlying type and its declared methods (each
  with its signature and whether the receiver is a pointer). \<open>types.Identical\<close> is equality.
\<close>

datatype gotype =
    Basic string
  | Pointer gotype
  | Slice gotype
  | Signature "gotype list" "gotype list" bool
  | Struct "(string \<times> gotype) list"
  | Interface "(string \<times> gotype) list"
  | Named string string gotype "(string \<times> gotype \<times> bool) list"

definition Identical :: "gotype \<Rightarrow> gotype \<Rightarrow> bool" where
  "Identical a b = (a = b)"

fun Underlying :: "gotype \<Rightarrow> gotype" where
  "Underlying (Named p n u ds) = u"
| "Underlying t = t"

record signature =
  Params :: "gotype list"
  Results :: "gotype list"
  Variadic :: bool

text \<open>
  The method set that \<open>types.Implements\<close> consults: the methods of an interface, the
  value-receiver methods of a named type, and every declared method of a pointer to a named
  type. Methods promoted from embedded fields are not part of this model.
\<close>

fun method_set :: "gotype \<Rightarrow> (string \<times> gotype) list" where
  "method_set (Interface ms) = ms"
| "method_set (Named p n (Interface ms) ds) = ms"
| "method_set (Named p n u ds) = map (\<lambda>(m, s, ptr). (m, s)) (filter (\<lambda>(m, s, ptr). \<not> ptr) ds)"
| "method_set (Pointer (Named p n (Interface ms) ds)) = []"
| "method_set (Pointer (Named p n (Pointer t) ds)) = []"
| "method_set (Pointer (Named p n u ds)) = map (\<lambda>(m, s, ptr). (m, s)) ds"
| "method_set t = []"

definition Implements :: "gotype \<Rightarrow> (string \<times> gotype) list \<Rightarrow> bool" where
  "Implements V ms = list_all (\<lambda>m. m \<in> set (method_set V)) ms"

text \<open>
  The objects of go/types that the parser receives: a function and a type name, each with
  the path of its package (\<open>None\<close> for an object of the universe scope), its name and the
  position of its declaration.
\<close>

record Func =
  fn_Pkg :: "string option"
  fn_Name :: string
  fn_Pos :: nat
  fn_Type :: signature

record TypeName =
  tn_Pkg :: "string option"
  tn_Name :: string
  tn_Pos :: nat
  tn_Type :: gotype

section \<open>Positions and errors\<close>

text \<open>
  \<open>token.Pos\<close> is a number and a \<open>token.FileSet\<close> resolves it to a file, a line and a
  column. An error keeps the format string of the source and its arguments, so that every
  message reads as it does in parse.go; \<open>WireErr\<close> is an error annotated with a position.
\<close>

type_synonym position = "string \<times> nat \<times> nat"

type_synonym FileSet = "nat \<Rightarrow> position"

definition Position :: "FileSet \<Rightarrow> nat \<Rightarrow> position" where
  "Position fset p = fset p"

datatype fmtarg =
    TypeString gotype
  | Str string
  | Cause error
and error =
    Errorf string "fmtarg list"
  | WireErr position error

definition New :: "string \<Rightarrow> error" where
  "New msg = Errorf msg []"

text \<open>
  Modelled from the spec: \<open>notePosition\<close>, \<open>notePositionAll\<close>, \<open>mapErrors\<close> and the
  \<open>errorCollector\<close> are declared outside parse.go. The spec has errors "annotated with the
  best available source location", container errors "wrapped with the location of the
  importing call, preserving the original cause", and a collector that is "appended to rather
  than thrown, then returned as a batch".
\<close>

definition notePosition :: "position \<Rightarrow> error \<Rightarrow> error" where
  "notePosition p e = WireErr p e"

definition mapErrors :: "error list \<Rightarrow> (error \<Rightarrow> error) \<Rightarrow> error list" where
  "mapErrors errs f = map f errs"

definition notePositionAll :: "position \<Rightarrow> error list \<Rightarrow> error list" where
  "notePositionAll p errs = mapErrors errs (notePosition p)"

record errorCollector =
  errors :: "error list"

definition ec_add :: "errorCollector \<Rightarrow> error list \<Rightarrow> errorCollector" where
  "ec_add ec errs = ec\<lparr>errors := errors ec @ errs\<rparr>"

text \<open>
  Modelled from the spec: \<open>errorType\<close> and \<open>cleanupType\<close> are package variables declared
  outside parse.go. They are the predeclared type \<open>error\<close> and the type \<open>func()\<close>, the
  two result types that the spec calls error and teardown and that the messages of
  \<open>funcOutput\<close> name.
\<close>

definition errorType :: gotype where
  "errorType = Named [] ''error'' (Interface [(''Error'', Signature [] [Basic ''string''] False)]) []"

definition cleanupType :: gotype where
  "cleanupType = Signature [] [] False"

section \<open>The provider model of parse.go\<close>

record ProviderInput =
  Type :: gotype

record Provider =
  Pkg :: "string option"
  Name :: string
  Pos' :: nat
  Args :: "ProviderInput list"
  IsStruct :: bool
  Fields :: "string list"
  Out :: "gotype list"
  HasCleanup :: bool
  HasErr :: bool

record IfaceBinding =
  Iface :: gotype
  Provided :: gotype
  Binding_Pos :: nat

record outputSignature =
  out :: gotype
  cleanup :: bool
  err :: bool

subsection \<open>funcOutput\<close>

text \<open>
  \<open>funcOutput\<close> returns \<open>(outputSignature, error)\<close>; with an error the signature is the
  zero value, so the result is a sum. The switch on \<open>results.Len()\<close> is kept as it is.
\<close>

definition funcOutput :: "signature \<Rightarrow> error + outputSignature" where
  "funcOutput sig =
     (let results = Results sig in
      if length results = 0 then Inl (New ''no return values'')
      else if length results = 1 then
        Inr \<lparr>out = results ! 0, cleanup = False, err = False\<rparr>
      else if length results = 2 then
        (let out0 = results ! 0; t = results ! 1 in
         if Identical t errorType then Inr \<lparr>out = out0, cleanup = False, err = True\<rparr>
         else if Identical t cleanupType then Inr \<lparr>out = out0, cleanup = True, err = False\<rparr>
         else Inl (Errorf ''second return type is %s; must be error or func()'' [TypeString t]))
      else if length results = 3 then
        (if \<not> Identical (results ! 1) cleanupType then
           Inl (Errorf ''second return type is %s; must be func()'' [TypeString (results ! 1)])
         else if \<not> Identical (results ! 2) errorType then
           Inl (Errorf ''third return type is %s; must be error'' [TypeString (results ! 2)])
         else Inr \<lparr>out = results ! 0, cleanup = True, err = True\<rparr>)
      else Inl (New ''too many return values''))"

subsection \<open>processFuncProvider and processStructProvider\<close>

text \<open>
  Both functions fill \<open>Args\<close> (and \<open>Fields\<close>) by index and, after storing entry \<open>i\<close>,
  compare it with the entries \<open>j < i\<close> in ascending order, returning at the first identical
  pair. \<open>firstIdentical\<close> is that inner loop: it yields the type of the earliest \<open>Args[j]\<close>
  identical to the new entry. \<open>fillArgs\<close> is the outer loop over the remaining types, with
  the entries stored so far; it yields the reported type, or the filled slice.
\<close>

fun firstIdentical :: "ProviderInput \<Rightarrow> ProviderInput list \<Rightarrow> gotype option" where
  "firstIdentical a [] = None"
| "firstIdentical a (b # bs) =
     (if Identical (Type a) (Type b) then Some (Type b) else firstIdentical a bs)"

fun fillArgs :: "ProviderInput list \<Rightarrow> gotype list \<Rightarrow> gotype + ProviderInput list" where
  "fillArgs args [] = Inr args"
| "fillArgs args (t # ts) =
     (case firstIdentical \<lparr>Type = t\<rparr> args of
        Some d \<Rightarrow> Inl d
      | None \<Rightarrow> fillArgs (args @ [\<lparr>Type = t\<rparr>]) ts)"

definition processFuncProvider :: "FileSet \<Rightarrow> Func \<Rightarrow> Provider option \<times> error list" where
  "processFuncProvider fset fn =
     (let sig = fn_Type fn; fpos = fn_Pos fn in
      case funcOutput sig of
        Inl e \<Rightarrow>
          (None, [notePosition (Position fset fpos)
             (Errorf ''wrong signature for provider %s: %v'' [Str (fn_Name fn), Cause e])])
      | Inr providerSig \<Rightarrow>
          (case fillArgs [] (Params sig) of
             Inl d \<Rightarrow>
               (None, [notePosition (Position fset fpos)
                  (Errorf ''provider has multiple parameters of type %s'' [TypeString d])])
           | Inr args \<Rightarrow>
               (Some \<lparr>Pkg = fn_Pkg fn, Name = fn_Name fn, Pos' = fn_Pos fn, Args = args,
                       IsStruct = False, Fields = [], Out = [out providerSig],
                       HasCleanup = cleanup providerSig, HasErr = err providerSig\<rparr>, [])))"

definition processStructProvider :: "FileSet \<Rightarrow> TypeName \<Rightarrow> Provider option \<times> error list" where
  "processStructProvider fset typeName =
     (let out0 = tn_Type typeName in
      case Underlying out0 of
        Struct flds \<Rightarrow>
          (let pos = tn_Pos typeName in
           case fillArgs [] (map snd flds) of
             Inl d \<Rightarrow>
               (None, [notePosition (Position fset pos)
                  (Errorf ''provider struct has multiple fields of type %s'' [TypeString d])])
           | Inr args \<Rightarrow>
               (Some \<lparr>Pkg = tn_Pkg typeName, Name = tn_Name typeName, Pos' = pos, Args = args,
                       IsStruct = True, Fields = map fst flds, Out = [out0, Pointer out0],
                       HasCleanup = False, HasErr = False\<rparr>, []))
      | _ \<Rightarrow> (None, [Errorf ''%v does not name a struct'' [Str (tn_Name typeName)]]))"

section \<open>Syntax trees with their type information (go/ast, types.Info)\<close>

text \<open>
  An expression of the checked program. The node types that parse.go takes apart have a
  constructor of their own; every other node is a \<open>Node\<close> with its kind and its children in
  the order in which \<open>ast.Walk\<close> visits them. An identifier carries the object that
  \<open>info.ObjectOf\<close> resolves it to (\<open>None\<close> for nil), and a package-level variable carries the
  \<open>ast.ValueSpec\<close> that \<open>varDecl\<close> finds for it (its names and its values), so that a set
  that refers to a variable holds the expression the variable is initialised with. Go rejects
  initialisation cycles, which is why such a program is a finite tree.

  Fields, in the order of go/ast: \<open>Ident NamePos Name obj\<close>, \<open>SelectorExpr X Sel\<close> (with the
  position, name and object of \<open>Sel\<close>), \<open>CallExpr Fun Args\<close>,
  \<open>CompositeLit Type Lbrace Elts\<close>, \<open>ParenExpr Lparen X\<close>, \<open>UnaryExpr OpPos Op X\<close>.
\<close>

datatype token = ARROW | Op string

datatype kind =
    ArrayType | BasicLit | BinaryExpr | ChanType | FuncType | IndexExpr | InterfaceType
  | KeyValueExpr | MapType | SliceExpr | StarExpr | StructType | TypeAssertExpr
  | BadExpr | Ellipsis | FuncLit | FieldList | Field | Stmt

datatype object =
    ObjPkgName "string option" string
  | ObjTypeName TypeName
  | ObjFunc Func
  | ObjVar "string option" string nat "(string list \<times> expr list) option"
  | ObjOther "string option" string
and expr =
    Ident nat string "object option"
  | SelectorExpr expr nat string "object option"
  | CallExpr expr "expr list"
  | CompositeLit "expr option" nat "expr list"
  | ParenExpr nat expr
  | UnaryExpr nat token expr
  | Node nat kind "expr list"

fun obj_Pkg :: "object \<Rightarrow> string option" where
  "obj_Pkg (ObjPkgName pkg n) = pkg"
| "obj_Pkg (ObjTypeName tn) = tn_Pkg tn"
| "obj_Pkg (ObjFunc fn) = fn_Pkg fn"
| "obj_Pkg (ObjVar pkg n p spec) = pkg"
| "obj_Pkg (ObjOther pkg n) = pkg"

fun obj_Name :: "object \<Rightarrow> string" where
  "obj_Name (ObjPkgName pkg n) = n"
| "obj_Name (ObjTypeName tn) = tn_Name tn"
| "obj_Name (ObjFunc fn) = fn_Name fn"
| "obj_Name (ObjVar pkg n p spec) = n"
| "obj_Name (ObjOther pkg n) = n"

text \<open>\<open>expr.Pos()\<close>, as go/ast computes it for each node type.\<close>

fun ExprPos :: "expr \<Rightarrow> nat" where
  "ExprPos (Ident p n obj) = p"
| "ExprPos (SelectorExpr x p n obj) = ExprPos x"
| "ExprPos (CallExpr fn args) = ExprPos fn"
| "ExprPos (CompositeLit (Some ty) lbrace elts) = ExprPos ty"
| "ExprPos (CompositeLit None lbrace elts) = lbrace"
| "ExprPos (ParenExpr p x) = p"
| "ExprPos (UnaryExpr p op x) = p"
| "ExprPos (Node p k cs) = p"

text \<open>The children of a node, in the order of \<open>ast.Walk\<close>.\<close>

fun children :: "expr \<Rightarrow> expr list" where
  "children (Ident p n obj) = []"
| "children (SelectorExpr x p n obj) = [x, Ident p n obj]"
| "children (CallExpr fn args) = fn # args"
| "children (CompositeLit (Some ty) lbrace elts) = ty # elts"
| "children (CompositeLit None lbrace elts) = elts"
| "children (ParenExpr p x) = [x]"
| "children (UnaryExpr p op x) = [x]"
| "children (Node p k cs) = cs"

text \<open>
  \<open>types.Info\<close>: the type recorded for each expression. \<open>load\<close> returns before any parsing
  when a package has an error, so every expression of the program has a type.
\<close>

record Info =
  TypeOf :: "expr \<Rightarrow> gotype"

record Value =
  Value_Pos :: nat
  Value_Out :: gotype
  Value_expr :: expr
  Value_info :: Info

text \<open>
  \<open>ast.Inspect\<close> calls \<open>f\<close> on the node; when \<open>f\<close> returns true it inspects the children in
  order and then calls \<open>f(nil)\<close>. The closure's captured variables are the state \<open>s\<close>.
\<close>

lemma size_expr_pos: "0 < size (x :: expr)"
  by (cases x) auto

lemma size_in_list: "c \<in> set cs \<Longrightarrow> size (c :: expr) \<le> size_list size cs"
  by (rule size_list_estimation') auto

lemma size_children: "c \<in> set (children n) \<Longrightarrow> size c < size n"
proof (cases n rule: children.cases)
  case (2 x p na obj)
  assume "c \<in> set (children n)"
  with 2 show ?thesis using size_expr_pos [of x] by auto
qed (auto simp: less_Suc_eq_le dest: size_in_list)

function Inspect :: "(expr option \<Rightarrow> 's \<Rightarrow> bool \<times> 's) \<Rightarrow> expr \<Rightarrow> 's \<Rightarrow> 's" where
  "Inspect f n s =
     (case f (Some n) s of
        (False, s1) \<Rightarrow> s1
      | (True, s1) \<Rightarrow> snd (f None (fold (Inspect f) (children n) s1)))"
  by pat_completeness auto
termination
  by (relation "measure (\<lambda>(f, n, s). size n)") (auto simp: size_children)

declare Inspect.simps [simp del]

subsection \<open>processBind\<close>

text \<open>
  A call is given by its \<open>Fun\<close> and its \<open>Args\<close>; \<open>call.Pos()\<close> is the position of \<open>Fun\<close>.
  The functions return the pair \<open>(pointer, error)\<close> of the source.
\<close>

definition processBind ::
  "FileSet \<Rightarrow> Info \<Rightarrow> expr \<Rightarrow> expr list \<Rightarrow> IfaceBinding option \<times> error option" where
  "processBind fset info callFun callArgs =
     (let callPos = ExprPos callFun in
      if length callArgs \<noteq> 2 then
        (None, Some (notePosition (Position fset callPos)
           (New ''call to Bind takes exactly two arguments'')))
      else
        (let ifaceArgType = TypeOf info (callArgs ! 0);
             notPointer = (None, Some (notePosition (Position fset callPos)
               (Errorf ''first argument to Bind must be a pointer to an interface type; found %s''
                  [TypeString ifaceArgType])))
         in case ifaceArgType of
              Pointer iface \<Rightarrow>
                (case Underlying iface of
                   Interface methodSet \<Rightarrow>
                     (let provided = TypeOf info (callArgs ! 1) in
                      if Identical iface provided then
                        (None, Some (notePosition (Position fset callPos)
                           (New ''cannot bind interface to itself'')))
                      else if \<not> Implements provided methodSet then
                        (None, Some (notePosition (Position fset callPos)
                           (Errorf ''%s does not implement %s''
                              [TypeString provided, TypeString iface])))
                      else
                        (Some \<lparr>Iface = iface, Provided = provided, Binding_Pos = callPos\<rparr>, None))
                 | _ \<Rightarrow> notPointer)
            | _ \<Rightarrow> notPointer))"

subsection \<open>processValue and processInterfaceValue\<close>

text \<open>
  The function literal that \<open>processValue\<close> hands to \<open>ast.Inspect\<close>; its captured variable
  \<open>ok\<close> is the state. The first case of the switch lists the accepted node types.
\<close>

fun isSignature :: "gotype \<Rightarrow> bool" where
  "isSignature (Signature ps rs v) = True"
| "isSignature t = False"

fun acceptedKind :: "kind \<Rightarrow> bool" where
  "acceptedKind ArrayType = True"
| "acceptedKind BasicLit = True"
| "acceptedKind BinaryExpr = True"
| "acceptedKind ChanType = True"
| "acceptedKind FuncType = True"
| "acceptedKind IndexExpr = True"
| "acceptedKind InterfaceType = True"
| "acceptedKind KeyValueExpr = True"
| "acceptedKind MapType = True"
| "acceptedKind SliceExpr = True"
| "acceptedKind StarExpr = True"
| "acceptedKind StructType = True"
| "acceptedKind TypeAssertExpr = True"
| "acceptedKind k = False"

fun valueVisit :: "Info \<Rightarrow> expr option \<Rightarrow> bool \<Rightarrow> bool \<times> bool" where
  "valueVisit info None ok = (True, ok)"
| "valueVisit info (Some (Ident p n obj)) ok = (True, ok)"
| "valueVisit info (Some (SelectorExpr x p n obj)) ok = (True, ok)"
| "valueVisit info (Some (CompositeLit ty lbrace elts)) ok = (True, ok)"
| "valueVisit info (Some (ParenExpr p x)) ok = (True, ok)"
| "valueVisit info (Some (Node p k cs)) ok = (if acceptedKind k then (True, ok) else (False, False))"
| "valueVisit info (Some (UnaryExpr p op x)) ok = (if op = ARROW then (False, False) else (True, ok))"
| "valueVisit info (Some (CallExpr fn args)) ok =
     (if isSignature (TypeOf info fn) then (False, False) else (True, ok))"

fun isInterface :: "gotype \<Rightarrow> bool" where
  "isInterface (Interface ms) = True"
| "isInterface t = False"

definition processValue ::
  "FileSet \<Rightarrow> Info \<Rightarrow> expr \<Rightarrow> expr list \<Rightarrow> Value option \<times> error option" where
  "processValue fset info callFun callArgs =
     (let callPos = ExprPos callFun in
      if length callArgs \<noteq> 1 then
        (None, Some (notePosition (Position fset callPos)
           (New ''call to Value takes exactly one argument'')))
      else
        (let ok = Inspect (valueVisit info) (callArgs ! 0) True in
         if \<not> ok then
           (None, Some (notePosition (Position fset callPos)
              (New ''argument to Value is too complex'')))
         else
           (let argType = TypeOf info (callArgs ! 0) in
            if isInterface (Underlying argType) then
              (None, Some (notePosition (Position fset callPos)
                 (Errorf ''argument to Value may not be an interface value (found %s); use InterfaceValue instead''
                    [TypeString argType])))
            else
              (Some \<lparr>Value_Pos = ExprPos (callArgs ! 0), Value_Out = TypeOf info (callArgs ! 0),
                      Value_expr = callArgs ! 0, Value_info = info\<rparr>, None))))"

definition processInterfaceValue ::
  "FileSet \<Rightarrow> Info \<Rightarrow> expr \<Rightarrow> expr list \<Rightarrow> Value option \<times> error option" where
  "processInterfaceValue fset info callFun callArgs =
     (let callPos = ExprPos callFun in
      if length callArgs \<noteq> 2 then
        (None, Some (notePosition (Position fset callPos)
           (New ''call to InterfaceValue takes exactly two arguments'')))
      else
        (let ifaceArgType = TypeOf info (callArgs ! 0);
             notPointer = (None, Some (notePosition (Position fset callPos)
               (Errorf ''first argument to InterfaceValue must be a pointer to an interface type; found %s''
                  [TypeString ifaceArgType])))
         in case ifaceArgType of
              Pointer iface \<Rightarrow>
                (case Underlying iface of
                   Interface methodSet \<Rightarrow>
                     (let provided = TypeOf info (callArgs ! 1) in
                      if \<not> Implements provided methodSet then
                        (None, Some (notePosition (Position fset callPos)
                           (Errorf ''%s does not implement %s''
                              [TypeString provided, TypeString iface])))
                      else
                        (Some \<lparr>Value_Pos = ExprPos (callArgs ! 1), Value_Out = iface,
                                Value_expr = callArgs ! 1, Value_info = info\<rparr>, None))
                 | _ \<Rightarrow> notPointer)
            | _ \<Rightarrow> notPointer))"

section \<open>Provider sets\<close>

record InjectorArgs =
  InjectorArgs_Name :: string
  Tuple :: "(string \<times> gotype) list"
  InjectorArgs_Pos :: nat

record InjectorArg =
  InjectorArg_Args :: InjectorArgs
  Index :: int

text \<open>
  \<open>ProvidedType\<close> with its four fields \<open>t\<close>, \<open>p\<close>, \<open>v\<close> and \<open>a\<close>; a nil pointer is \<open>None\<close>.
\<close>

record ProvidedType =
  pt_t :: "gotype option"
  pt_p :: "Provider option"
  pt_v :: "Value option"
  pt_a :: "InjectorArg option"

text \<open>
  A \<open>ProviderSet\<close> imports provider sets, so it is a datatype with the fields of the struct
  as selectors. \<open>providerMap\<close> is the \<open>typeutil.Map\<close> from a type to its \<open>ProvidedType\<close>
  (\<open>None\<close> for the nil map of a zero set); the values of \<open>srcMap\<close> are not inspected by
  parse.go and stay a type parameter.
\<close>

datatype 'src ProviderSet = ProviderSet
  (Set_Pos: nat) (PkgPath: string) (VarName: string)
  (Providers: "Provider list") (Bindings: "IfaceBinding list") (Values: "Value list")
  (Imports: "'src ProviderSet list") (InjectorArgs: "InjectorArgs option")
  (providerMap: "(gotype \<Rightarrow> ProvidedType option) option")
  (srcMap: "(gotype \<Rightarrow> 'src option) option")

datatype 'src item =
    ItemProvider Provider
  | ItemSet "'src ProviderSet"
  | ItemBinding IfaceBinding
  | ItemValue Value

text \<open>A call either panics or returns.\<close>

datatype 'a outcome = Panics string | Returns 'a

text \<open>
  The object cache: the file set, for each import path the type information of the package,
  and the memo table \<open>objects\<close>. The table is keyed by an \<open>objRef\<close>, the pair of an import
  path and a name, and an entry holds what \<open>get\<close> returned: the value and the errors. The
  cache is a pointer in the source; here every function that may write to the table returns
  the cache next to its result.
\<close>

record 'src objectCache =
  oc_fset :: FileSet
  oc_packages :: "string \<Rightarrow> Info option"
  oc_objects :: "string \<times> string \<Rightarrow> ('src item option \<times> error list) option"

text \<open>
  \<open>buildProviderMap\<close> and \<open>verifyAcyclic\<close> are declared outside parse.go. The parser is
  modelled for any pair of such functions.
\<close>

record 'src analysis =
  buildProviderMap :: "FileSet \<Rightarrow> 'src ProviderSet \<Rightarrow>
     (gotype \<Rightarrow> ProvidedType option) option \<times> (gotype \<Rightarrow> 'src option) option \<times> error list"
  verifyAcyclic :: "(gotype \<Rightarrow> ProvidedType option) option \<Rightarrow> error list"

subsection \<open>isWireImport\<close>

definition LastIndex :: "string \<Rightarrow> string \<Rightarrow> int" where
  "LastIndex s sep =
     (case filter (\<lambda>i. take (length sep) (drop i s) = sep) (rev [0..<Suc (length s)]) of
        [] \<Rightarrow> - 1
      | i # _ \<Rightarrow> int i)"

definition isWireImport :: "string \<Rightarrow> bool" where
  "isWireImport path =
     (let vendorPart = ''vendor/'';
          i = LastIndex path vendorPart;
          path1 = (if i \<noteq> - 1 \<and> (i = 0 \<or> path ! nat (i - 1) = CHR ''/'')
                   then drop (nat i + length vendorPart) path else path)
      in path1 = ''github.com/google/go-cloud/wire'')"

subsection \<open>qualifiedIdentObject and structArgType\<close>

fun qualifiedIdentObject :: "expr \<Rightarrow> object option" where
  "qualifiedIdentObject (Ident p n obj) = obj"
| "qualifiedIdentObject (SelectorExpr (Ident px nx (Some (ObjPkgName pkg pn))) p n obj) = obj"
| "qualifiedIdentObject e = None"

fun isStruct :: "gotype \<Rightarrow> bool" where
  "isStruct (Struct flds) = True"
| "isStruct t = False"

fun structArgType :: "expr \<Rightarrow> TypeName option" where
  "structArgType (CompositeLit (Some ty) lbrace elts) =
     (case qualifiedIdentObject ty of
        Some (ObjTypeName tn) \<Rightarrow> if isStruct (Underlying (tn_Type tn)) then Some tn else None
      | _ \<Rightarrow> None)"
| "structArgType e = None"

text \<open>\<open>astutil.Unparen\<close> strips the enclosing parentheses.\<close>

fun Unparen :: "expr \<Rightarrow> expr" where
  "Unparen (ParenExpr p x) = Unparen x"
| "Unparen e = e"

subsection \<open>get, processExpr and processNewSet\<close>

text \<open>
  The index that the loop over \<open>spec.Names\<close> in \<open>get\<close> leaves in \<open>i\<close>: the first name equal
  to the object's, and the last index when no name is.
\<close>

fun nameIndex :: "string list \<Rightarrow> string \<Rightarrow> nat" where
  "nameIndex [] n = 0"
| "nameIndex [x] n = 0"
| "nameIndex (x # y # ys) n = (if x = n then 0 else Suc (nameIndex (y # ys) n))"

definition appendItem :: "'src ProviderSet \<Rightarrow> 'src item \<Rightarrow> 'src ProviderSet" where
  "appendItem pset it =
     (case pset of ProviderSet pos pkgPath varName ps bs vs imps ia pm sm \<Rightarrow>
        (case it of
           ItemProvider p \<Rightarrow> ProviderSet pos pkgPath varName (ps @ [p]) bs vs imps ia pm sm
         | ItemSet s \<Rightarrow> ProviderSet pos pkgPath varName ps bs vs (imps @ [s]) ia pm sm
         | ItemBinding b \<Rightarrow> ProviderSet pos pkgPath varName ps (bs @ [b]) vs imps ia pm sm
         | ItemValue v \<Rightarrow> ProviderSet pos pkgPath varName ps bs (vs @ [v]) imps ia pm sm))"

definition setMaps ::
  "'src ProviderSet \<Rightarrow> (gotype \<Rightarrow> ProvidedType option) option \<Rightarrow> (gotype \<Rightarrow> 'src option) option
     \<Rightarrow> 'src ProviderSet" where
  "setMaps pset pm sm =
     (case pset of ProviderSet pos pkgPath varName ps bs vs imps ia pm0 sm0 \<Rightarrow>
        ProviderSet pos pkgPath varName ps bs vs imps ia pm sm)"

definition notProvider :: "object \<Rightarrow> error" where
  "notProvider obj = Errorf ''%v is not a provider or a provider set'' [Str (obj_Name obj)]"

lemma size_qualifiedIdentObject: "qualifiedIdentObject e = Some obj \<Longrightarrow> size obj < size e"
  by (cases e rule: qualifiedIdentObject.cases) auto

lemma size_Unparen: "size (Unparen e) \<le> size e"
  by (induction e rule: Unparen.induct) auto

lemma size_Unparen_object:
  "qualifiedIdentObject (Unparen e) = Some obj \<Longrightarrow> size obj < size e"
  using size_qualifiedIdentObject [of "Unparen e" obj] size_Unparen [of e] by simp

lemma size_Unparen_call: "CallExpr fn args = Unparen e \<Longrightarrow> Suc (size_list size args) < size e"
proof -
  assume h: "CallExpr fn args = Unparen e"
  have "size (CallExpr fn args) \<le> size e" using size_Unparen [of e] h by simp
  then show ?thesis using size_expr_pos [of fn] by simp
qed

lemma size_nth_vals: "i < length vals \<Longrightarrow> size (vals ! i :: expr) \<le> size_list size vals"
  by (rule size_in_list) simp

text \<open>
  The deferred function of \<open>get\<close> stores what \<open>get\<close> returns under the reference of the
  object. Nothing recovers from a panic, so what it stores when \<open>get\<close> panics is never read.
\<close>

definition remember ::
  "'src objectCache \<Rightarrow> string \<times> string \<Rightarrow> 'src item option \<times> error list \<Rightarrow> 'src objectCache" where
  "remember oc ref ent = oc\<lparr>oc_objects := (oc_objects oc)(ref \<mapsto> ent)\<rparr>"

definition storeEntry ::
  "string \<times> string \<Rightarrow> (('src item option \<times> error list) \<times> 'src objectCache) outcome
     \<Rightarrow> (('src item option \<times> error list) \<times> 'src objectCache) outcome" where
  "storeEntry ref r =
     (case r of
        Panics m \<Rightarrow> Panics m
      | Returns (ent, oc1) \<Rightarrow> Returns (ent, remember oc1 ref ent))"

text \<open>
  The four functions call each other: \<open>get\<close> processes the value of a variable with
  \<open>processExpr\<close>; \<open>processExpr\<close> looks an identifier up with \<open>get\<close> and hands a call of
  \<open>wire.NewSet\<close> to \<open>processNewSet\<close>; \<open>processArgs\<close> is the loop of \<open>processNewSet\<close>
  over \<open>call.Args\<close>, with the set under construction and the error collector as its state.
  A nil package (\<open>obj.Pkg()\<close> of an object of the universe scope), a package missing from
  the cache and an index out of range make the source panic. \<open>get\<close> builds the reference
  first, then answers from the memo table when it has an entry under the reference, and
  otherwise stores what it computes. The hasher that the source hands to \<open>buildProviderMap\<close>
  and \<open>verifyAcyclic\<close> is left out. Every call is on a smaller syntax tree, which is why
  the recursion ends.
\<close>

function (sequential)
  get :: "'src analysis \<Rightarrow> 'src objectCache \<Rightarrow> object
     \<Rightarrow> (('src item option \<times> error list) \<times> 'src objectCache) outcome"
and processExpr :: "'src analysis \<Rightarrow> 'src objectCache \<Rightarrow> Info \<Rightarrow> string \<Rightarrow> expr \<Rightarrow> string
     \<Rightarrow> (('src item option \<times> error list) \<times> 'src objectCache) outcome"
and processNewSet :: "'src analysis \<Rightarrow> 'src objectCache \<Rightarrow> Info \<Rightarrow> string \<Rightarrow> expr \<Rightarrow> expr list
     \<Rightarrow> InjectorArgs option \<Rightarrow> string
     \<Rightarrow> (('src ProviderSet option \<times> error list) \<times> 'src objectCache) outcome"
and processArgs :: "'src analysis \<Rightarrow> 'src objectCache \<Rightarrow> Info \<Rightarrow> string \<Rightarrow> expr list
     \<Rightarrow> 'src ProviderSet \<Rightarrow> errorCollector
     \<Rightarrow> (('src ProviderSet \<times> errorCollector) \<times> 'src objectCache) outcome"
where
  "get an oc obj =
     (case obj_Pkg obj of
        None \<Rightarrow> Panics ''nil pointer dereference''
      | Some importPath \<Rightarrow>
          (case oc_objects oc (importPath, obj_Name obj) of
             Some ent \<Rightarrow> Returns (ent, oc)
           | None \<Rightarrow>
               storeEntry (importPath, obj_Name obj)
                 (case obj of
                    ObjVar pkg name pos spec \<Rightarrow>
                      (case oc_packages oc importPath of
                         None \<Rightarrow> Panics ''nil pointer dereference''
                       | Some pinfo \<Rightarrow>
                           (case spec of
                              None \<Rightarrow> Returns ((None, [notProvider obj]), oc)
                            | Some (names, vals) \<Rightarrow>
                                if length vals = 0 then Returns ((None, [notProvider obj]), oc)
                                else
                                  (let i = nameIndex names name in
                                   if i < length vals
                                   then processExpr an oc pinfo importPath (vals ! i) name
                                   else Panics ''index out of range'')))
                  | ObjFunc fn \<Rightarrow>
                      (case processFuncProvider (oc_fset oc) fn of
                         (p, errs) \<Rightarrow> Returns ((map_option ItemProvider p, errs), oc))
                  | _ \<Rightarrow> Returns ((None, [notProvider obj]), oc))))"
| "processExpr an oc info pkgPath expr0 varName =
     (let exprPos = Position (oc_fset oc) (ExprPos expr0);
          e = Unparen expr0;
          unknown = Returns ((None, [notePosition exprPos (New ''unknown pattern'')]), oc)
      in case qualifiedIdentObject e of
           Some obj \<Rightarrow>
             (case get an oc obj of
                Panics m \<Rightarrow> Panics m
              | Returns ((it, errs), oc1) \<Rightarrow>
                  Returns ((it, mapErrors errs (notePosition exprPos)), oc1))
         | None \<Rightarrow>
             (case e of
                CallExpr callFun callArgs \<Rightarrow>
                  (case qualifiedIdentObject callFun of
                     None \<Rightarrow> unknown
                   | Some fnObj \<Rightarrow>
                       (case obj_Pkg fnObj of
                          None \<Rightarrow> Panics ''nil pointer dereference''
                        | Some path \<Rightarrow>
                            if \<not> isWireImport path then unknown
                            else if obj_Name fnObj = ''NewSet'' then
                              (case processNewSet an oc info pkgPath callFun callArgs None varName of
                                 Panics m \<Rightarrow> Panics m
                               | Returns ((pset, errs), oc1) \<Rightarrow>
                                   Returns ((map_option ItemSet pset, notePositionAll exprPos errs),
                                            oc1))
                            else if obj_Name fnObj = ''Bind'' then
                              (case processBind (oc_fset oc) info callFun callArgs of
                                 (b, Some er) \<Rightarrow> Returns ((None, [notePosition exprPos er]), oc)
                               | (b, None) \<Rightarrow> Returns ((map_option ItemBinding b, []), oc))
                            else if obj_Name fnObj = ''Value'' then
                              (case processValue (oc_fset oc) info callFun callArgs of
                                 (v, Some er) \<Rightarrow> Returns ((None, [notePosition exprPos er]), oc)
                               | (v, None) \<Rightarrow> Returns ((map_option ItemValue v, []), oc))
                            else if obj_Name fnObj = ''InterfaceValue'' then
                              (case processInterfaceValue (oc_fset oc) info callFun callArgs of
                                 (v, Some er) \<Rightarrow> Returns ((None, [notePosition exprPos er]), oc)
                               | (v, None) \<Rightarrow> Returns ((map_option ItemValue v, []), oc))
                            else unknown))
              | _ \<Rightarrow>
                  (case structArgType e of
                     Some tn \<Rightarrow>
                       (case processStructProvider (oc_fset oc) tn of
                          (p, errs) \<Rightarrow>
                            if length errs > 0
                            then Returns ((None, notePositionAll exprPos errs), oc)
                            else Returns ((map_option ItemProvider p, []), oc))
                   | None \<Rightarrow> unknown)))"
| "processNewSet an oc info pkgPath callFun callArgs args varName =
     (case processArgs an oc info pkgPath callArgs
             (ProviderSet (ExprPos callFun) pkgPath varName [] [] [] [] args None None)
             \<lparr>errors = []\<rparr> of
        Panics m \<Rightarrow> Panics m
      | Returns ((pset, ec), oc1) \<Rightarrow>
          if length (errors ec) > 0 then Returns ((None, errors ec), oc1)
          else
            (case buildProviderMap an (oc_fset oc1) pset of
               (pm, sm, errs) \<Rightarrow>
                 if length errs > 0 then Returns ((None, errs), oc1)
                 else
                   (let errs2 = verifyAcyclic an pm in
                    if length errs2 > 0 then Returns ((None, errs2), oc1)
                    else Returns ((Some (setMaps pset pm sm), []), oc1))))"
| "processArgs an oc info pkgPath [] pset ec = Returns ((pset, ec), oc)"
| "processArgs an oc info pkgPath (arg # rest) pset ec =
     (case processExpr an oc info pkgPath arg [] of
        Panics m \<Rightarrow> Panics m
      | Returns ((it, errs), oc1) \<Rightarrow>
          if length errs > 0 then processArgs an oc1 info pkgPath rest pset (ec_add ec errs)
          else (case it of
                  Some x \<Rightarrow> processArgs an oc1 info pkgPath rest (appendItem pset x) ec
                | None \<Rightarrow> Panics ''unknown item type''))"
  by pat_completeness auto
termination
  apply (relation "measure (\<lambda>x. case x of
          Inl (Inl (an, oc, obj)) \<Rightarrow> size obj
        | Inl (Inr (an, oc, info, pkgPath, e, varName)) \<Rightarrow> size e
        | Inr (Inl (an, oc, info, pkgPath, callFun, callArgs, args, varName)) \<Rightarrow> Suc (size_list size callArgs)
        | Inr (Inr (an, oc, info, pkgPath, es, pset, ec)) \<Rightarrow> size_list size es)")
         apply simp
  subgoal for an oc obj importPath pkg name pos spec pinfo x names vals i
    using size_nth_vals [of "nameIndex names name" vals] by auto
       apply (simp_all add: size_Unparen_object)
  apply (rule size_Unparen_call, assumption)
  done

declare get.simps [simp del] processExpr.simps [simp del] processNewSet.simps [simp del]

text \<open>
  A memo table is well formed when every entry without an error holds a value. \<open>get\<close>
  stores no other entries, so every table that grows from the empty one is well formed.
\<close>

definition wfCache :: "'src objectCache \<Rightarrow> bool" where
  "wfCache oc = (\<forall>ref it. oc_objects oc ref = Some (it, []) \<longrightarrow> it \<noteq> None)"

text \<open>
  The errors of the arguments of a \<open>wire.NewSet\<close> or \<open>wire.Build\<close> call, in the order of
  the arguments: each argument is processed with the memo table as the arguments before it
  left it, and a panic of one argument is a panic of the whole.
\<close>

fun argsErrors ::
  "'src analysis \<Rightarrow> 'src objectCache \<Rightarrow> Info \<Rightarrow> string \<Rightarrow> expr list \<Rightarrow> error list outcome" where
  "argsErrors an oc info pkgPath [] = Returns []"
| "argsErrors an oc info pkgPath (arg # rest) =
     (case processExpr an oc info pkgPath arg [] of
        Panics m \<Rightarrow> Panics m
      | Returns ((it, errs), oc1) \<Rightarrow>
          (case argsErrors an oc1 info pkgPath rest of
             Panics m \<Rightarrow> Panics m
           | Returns es \<Rightarrow> Returns (errs @ es)))"

subsection \<open>ProviderSet.For and ProvidedType\<close>

definition zeroProvidedType :: ProvidedType where
  "zeroProvidedType = \<lparr>pt_t = None, pt_p = None, pt_v = None, pt_a = None\<rparr>"

text \<open>\<open>typeutil.Map.At\<close> returns nil for a nil map and for a key the map does not hold.\<close>

definition At :: "(gotype \<Rightarrow> 'a option) option \<Rightarrow> gotype \<Rightarrow> 'a option" where
  "At m k = (case m of None \<Rightarrow> None | Some f \<Rightarrow> f k)"

definition For :: "'src ProviderSet \<Rightarrow> gotype \<Rightarrow> ProvidedType" where
  "For set0 t =
     (case At (providerMap set0) t of
        None \<Rightarrow> zeroProvidedType
      | Some pt \<Rightarrow> pt)"

definition IsNil :: "ProvidedType \<Rightarrow> bool" where
  "IsNil pt = (pt_p pt = None \<and> pt_v pt = None \<and> pt_a pt = None)"

definition ConcreteType :: "ProvidedType \<Rightarrow> gotype option" where
  "ConcreteType pt = pt_t pt"

definition IsProvider :: "ProvidedType \<Rightarrow> bool" where
  "IsProvider pt = (pt_p pt \<noteq> None)"

definition IsValue :: "ProvidedType \<Rightarrow> bool" where
  "IsValue pt = (pt_v pt \<noteq> None)"

definition IsArg :: "ProvidedType \<Rightarrow> bool" where
  "IsArg pt = (pt_a pt \<noteq> None)"

definition pt_Provider :: "ProvidedType \<Rightarrow> Provider outcome" where
  "pt_Provider pt =
     (case pt_p pt of
        None \<Rightarrow> Panics ''ProvidedType does not hold a Provider''
      | Some p \<Rightarrow> Returns p)"

definition pt_Value :: "ProvidedType \<Rightarrow> Value outcome" where
  "pt_Value pt =
     (case pt_v pt of
        None \<Rightarrow> Panics ''ProvidedType does not hold a Value''
      | Some v \<Rightarrow> Returns v)"

definition pt_Arg :: "ProvidedType \<Rightarrow> InjectorArg outcome" where
  "pt_Arg pt =
     (case pt_a pt of
        None \<Rightarrow> Panics ''ProvidedType does not hold an Arg''
      | Some a \<Rightarrow> Returns a)"

fun panics :: "'a outcome \<Rightarrow> bool" where
  "panics (Panics m) = True"
| "panics (Returns x) = False"

subsection \<open>What an argument of wire.Value contains, in the words of the spec\<close>

text \<open>
  The nodes of an expression: the node itself and the nodes of its children. A channel
  receive is a unary expression with the operator \<open><-\<close>. A node is unlisted when its type
  is none of those that the switch of \<open>processValue\<close> names.
\<close>

function subnodes :: "expr \<Rightarrow> expr list" where
  "subnodes n = n # concat (map subnodes (children n))"
  by pat_completeness auto
termination
  by (relation "measure size") (auto simp: size_children)

declare subnodes.simps [simp del]

fun isReceive :: "expr \<Rightarrow> bool" where
  "isReceive (UnaryExpr p op x) = (op = ARROW)"
| "isReceive e = False"

fun unlistedNode :: "expr \<Rightarrow> bool" where
  "unlistedNode (Node p k cs) = (\<not> acceptedKind k)"
| "unlistedNode e = False"

text \<open>
  The spec allows "no function calls other than type conversions". A call is a conversion
  when its operand denotes a type: an identifier or a qualified identifier of a type name, a
  type literal, or one of these in parentheses or under a star. Every other call is a
  function call, whatever the type of its operand is.
\<close>

fun isTypeKind :: "kind \<Rightarrow> bool" where
  "isTypeKind ArrayType = True"
| "isTypeKind ChanType = True"
| "isTypeKind FuncType = True"
| "isTypeKind InterfaceType = True"
| "isTypeKind MapType = True"
| "isTypeKind StructType = True"
| "isTypeKind k = False"

fun isTypeExpr :: "expr \<Rightarrow> bool" where
  "isTypeExpr (Ident p n (Some (ObjTypeName tn))) = True"
| "isTypeExpr (SelectorExpr x p n (Some (ObjTypeName tn))) = True"
| "isTypeExpr (ParenExpr p x) = isTypeExpr x"
| "isTypeExpr (Node p StarExpr [x]) = isTypeExpr x"
| "isTypeExpr (Node p k cs) = isTypeKind k"
| "isTypeExpr e = False"

fun functionCall :: "expr \<Rightarrow> bool" where
  "functionCall (CallExpr fn args) = (\<not> isTypeExpr fn)"
| "functionCall e = False"

definition containsReceive :: "expr \<Rightarrow> bool" where
  "containsReceive e = list_ex isReceive (subnodes e)"

definition containsFunctionCall :: "expr \<Rightarrow> bool" where
  "containsFunctionCall e = list_ex functionCall (subnodes e)"

text \<open>
  The test of the source, for comparison: \<open>processValue\<close> takes a call for a function call
  when the type recorded for its operand is itself a \<open>*types.Signature\<close>
  (\<open>signatureCall\<close>), and \<open>rejectedNode\<close> is a node at which its function literal returns
  false. The test is exact on an expression when, on every call in it, it says what the spec
  means: the operand of every function call is recorded with a function signature and the
  operand of no conversion is. A call through a value of a named function type is a function
  call that the test misses, and a conversion to an alias of a function type is a conversion
  that it takes for a call.
\<close>

fun signatureCall :: "Info \<Rightarrow> expr \<Rightarrow> bool" where
  "signatureCall info (CallExpr fn args) = isSignature (TypeOf info fn)"
| "signatureCall info e = False"

definition rejectedNode :: "Info \<Rightarrow> expr \<Rightarrow> bool" where
  "rejectedNode info n = (isReceive n \<or> signatureCall info n \<or> unlistedNode n)"

definition containsSignatureCall :: "Info \<Rightarrow> expr \<Rightarrow> bool" where
  "containsSignatureCall info e = list_ex (signatureCall info) (subnodes e)"

definition callTestExact :: "Info \<Rightarrow> expr \<Rightarrow> bool" where
  "callTestExact info e = list_all (\<lambda>n. signatureCall info n = functionCall n) (subnodes e)"

definition containsUnlisted :: "expr \<Rightarrow> bool" where
  "containsUnlisted e = list_ex unlistedNode (subnodes e)"

text \<open>
  A struct composite literal built only from literals and identifiers: the type is a
  (qualified) identifier and every element is a literal, an identifier, or a key-value pair
  of those.
\<close>

fun literalOrIdent :: "expr \<Rightarrow> bool" where
  "literalOrIdent (Ident p n obj) = True"
| "literalOrIdent (Node p BasicLit []) = True"
| "literalOrIdent e = False"

fun structElement :: "expr \<Rightarrow> bool" where
  "structElement (Node p KeyValueExpr [k, v]) = (literalOrIdent k \<and> literalOrIdent v)"
| "structElement e = literalOrIdent e"

fun typeIdent :: "expr \<Rightarrow> bool" where
  "typeIdent (Ident p n obj) = True"
| "typeIdent (SelectorExpr (Ident px nx objx) p n obj) = True"
| "typeIdent e = False"

fun structLiteral :: "expr \<Rightarrow> bool" where
  "structLiteral (CompositeLit (Some ty) lbrace elts) = (typeIdent ty \<and> list_all structElement elts)"
| "structLiteral e = False"

definition tooComplex :: "FileSet \<Rightarrow> expr \<Rightarrow> Value option \<times> error option" where
  "tooComplex fset callFun =
     (None, Some (notePosition (Position fset (ExprPos callFun))
        (New ''argument to Value is too complex'')))"

definition useInterfaceValue :: "FileSet \<Rightarrow> expr \<Rightarrow> gotype \<Rightarrow> Value option \<times> error option" where
  "useInterfaceValue fset callFun argType =
     (None, Some (notePosition (Position fset (ExprPos callFun))
        (Errorf ''argument to Value may not be an interface value (found %s); use InterfaceValue instead''
           [TypeString argType])))"

section \<open>The generated injectors of the guestbook sample (wire_gen.go)\<close>

text \<open>
  An injector calls its providers in a fixed order. What a provider gives back beyond its value
  is an error of type \<open>'e\<close>, a teardown of type \<open>'c\<close>, or both; the environment of an injector
  holds, for each of its providers that can fail or that returns a teardown, what the call
  gives back (\<open>Inl\<close> or \<open>Some\<close> for an error). Each provider is called at most once, so this
  covers providers whose result depends on their arguments. Calls that return only a value
  neither end the injector nor register a teardown, and are left out.

  The injector returns \<open>(*application, func(), error)\<close>. \<open>app\<close> tells whether the application
  is non-nil, \<open>cleanupFn\<close> is the returned function as the teardowns it calls in order
  (\<open>None\<close> for nil), and \<open>called\<close> are the teardowns that the injector itself has called, in
  order, when it returns.
\<close>

record ('e, 'c) injected =
  app :: bool
  cleanupFn :: "'c list option"
  error :: "'e option"
  called :: "'c list"

definition failed :: "'e \<Rightarrow> 'c list \<Rightarrow> ('e, 'c) injected" where
  "failed e cs = \<lparr>app = False, cleanupFn = None, error = Some e, called = cs\<rparr>"

definition succeeded :: "'c list \<Rightarrow> ('e, 'c) injected" where
  "succeeded cs = \<lparr>app = True, cleanupFn = Some cs, error = None, called = []\<rparr>"

record ('e, 'c) aws_env =
  rdsmysql_Open :: "'e + 'c"
  aws_appHealthChecks :: 'c
  session_NewSessionWithOptions :: "'e option"
  xrayserver_NewExporter :: "'e + 'c"
  awsBucket :: "'e option"
  awsMOTDVar :: "'e option"

definition setupAWS :: "('e, 'c) aws_env \<Rightarrow> ('e, 'c) injected" where
  "setupAWS env =
     (case rdsmysql_Open env of
        Inl e \<Rightarrow> failed e []
      | Inr cleanup1 \<Rightarrow>
          (let cleanup2 = aws_appHealthChecks env in
           case session_NewSessionWithOptions env of
             Some e \<Rightarrow> failed e [cleanup2, cleanup1]
           | None \<Rightarrow>
               (case xrayserver_NewExporter env of
                  Inl e \<Rightarrow> failed e [cleanup2, cleanup1]
                | Inr cleanup3 \<Rightarrow>
                    (case awsBucket env of
                       Some e \<Rightarrow> failed e [cleanup3, cleanup2, cleanup1]
                     | None \<Rightarrow>
                         (case awsMOTDVar env of
                            Some e \<Rightarrow> failed e [cleanup3, cleanup2, cleanup1]
                          | None \<Rightarrow> succeeded [cleanup3, cleanup2, cleanup1])))))"

record ('e, 'c) gcp_env =
  gcp_DefaultCredentials :: "'e option"
  gcp_NewHTTPClient :: "'e option"
  gcp_DefaultProjectID :: "'e option"
  cloudmysql_Open :: "'e option"
  gcp_appHealthChecks :: 'c
  sdserver_NewExporter :: "'e option"
  gcpBucket :: "'e option"
  runtimeconfigurator_Dial :: "'e + 'c"
  gcpMOTDVar :: "'e + 'c"

definition setupGCP :: "('e, 'c) gcp_env \<Rightarrow> ('e, 'c) injected" where
  "setupGCP env =
     (case gcp_DefaultCredentials env of
        Some e \<Rightarrow> failed e []
      | None \<Rightarrow>
     (case gcp_NewHTTPClient env of
        Some e \<Rightarrow> failed e []
      | None \<Rightarrow>
     (case gcp_DefaultProjectID env of
        Some e \<Rightarrow> failed e []
      | None \<Rightarrow>
     (case cloudmysql_Open env of
        Some e \<Rightarrow> failed e []
      | None \<Rightarrow>
          (let cleanup1 = gcp_appHealthChecks env in
           case sdserver_NewExporter env of
             Some e \<Rightarrow> failed e [cleanup1]
           | None \<Rightarrow>
               (case gcpBucket env of
                  Some e \<Rightarrow> failed e [cleanup1]
                | None \<Rightarrow>
                    (case runtimeconfigurator_Dial env of
                       Inl e \<Rightarrow> failed e [cleanup1]
                     | Inr cleanup2 \<Rightarrow>
                         (case gcpMOTDVar env of
                            Inl e \<Rightarrow> failed e [cleanup2, cleanup1]
                          | Inr cleanup3 \<Rightarrow> succeeded [cleanup3, cleanup2, cleanup1]))))))))"

record ('e, 'c) local_env =
  dialLocalSQL :: "'e option"
  local_appHealthChecks :: 'c
  localBucket :: "'e option"
  localRuntimeVar :: "'e + 'c"

definition setupLocal :: "('e, 'c) local_env \<Rightarrow> ('e, 'c) injected" where
  "setupLocal env =
     (case dialLocalSQL env of
        Some e \<Rightarrow> failed e []
      | None \<Rightarrow>
          (let cleanup1 = local_appHealthChecks env in
           case localBucket env of
             Some e \<Rightarrow> failed e [cleanup1]
           | None \<Rightarrow>
               (case localRuntimeVar env of
                  Inl e \<Rightarrow> failed e [cleanup1]
                | Inr cleanup2 \<Rightarrow> succeeded [cleanup2, cleanup1])))"

subsection \<open>The teardown discipline of a construction plan, in the words of the spec\<close>

text \<open>
  A step of a plan either fails with an error or completes, and a completed step may register
  a teardown. The steps of each injector are the calls of its body in construction order.
\<close>

datatype ('e, 'c) step = Fails 'e | Completes "'c option"

definition fallible :: "'e option \<Rightarrow> ('e, 'c) step" where
  "fallible r = (case r of Some e \<Rightarrow> Fails e | None \<Rightarrow> Completes None)"

definition fallibleWithTeardown :: "'e + 'c \<Rightarrow> ('e, 'c) step" where
  "fallibleWithTeardown r = (case r of Inl e \<Rightarrow> Fails e | Inr c \<Rightarrow> Completes (Some c))"

definition withTeardown :: "'c \<Rightarrow> ('e, 'c) step" where
  "withTeardown c = Completes (Some c)"

definition aws_steps :: "('e, 'c) aws_env \<Rightarrow> ('e, 'c) step list" where
  "aws_steps env =
     [fallibleWithTeardown (rdsmysql_Open env),
      withTeardown (aws_appHealthChecks env),
      fallible (session_NewSessionWithOptions env),
      fallibleWithTeardown (xrayserver_NewExporter env),
      fallible (awsBucket env),
      fallible (awsMOTDVar env)]"

definition gcp_steps :: "('e, 'c) gcp_env \<Rightarrow> ('e, 'c) step list" where
  "gcp_steps env =
     [fallible (gcp_DefaultCredentials env),
      fallible (gcp_NewHTTPClient env),
      fallible (gcp_DefaultProjectID env),
      fallible (cloudmysql_Open env),
      withTeardown (gcp_appHealthChecks env),
      fallible (sdserver_NewExporter env),
      fallible (gcpBucket env),
      fallibleWithTeardown (runtimeconfigurator_Dial env),
      fallibleWithTeardown (gcpMOTDVar env)]"

definition local_steps :: "('e, 'c) local_env \<Rightarrow> ('e, 'c) step list" where
  "local_steps env =
     [fallible (dialLocalSQL env),
      withTeardown (local_appHealthChecks env),
      fallible (localBucket env),
      fallibleWithTeardown (localRuntimeVar env)]"

fun completes :: "('e, 'c) step \<Rightarrow> bool" where
  "completes (Completes c) = True"
| "completes (Fails e) = False"

fun teardownOf :: "('e, 'c) step \<Rightarrow> 'c list" where
  "teardownOf (Completes (Some c)) = [c]"
| "teardownOf s = []"

text \<open>
  The steps that completed before the first failure, the teardowns they registered in order
  of acquisition, and the error of the first failing step.
\<close>

definition completedSteps :: "('e, 'c) step list \<Rightarrow> ('e, 'c) step list" where
  "completedSteps ss = takeWhile completes ss"

definition registered :: "('e, 'c) step list \<Rightarrow> 'c list" where
  "registered ss = concat (map teardownOf (completedSteps ss))"

definition firstFailure :: "('e, 'c) step list \<Rightarrow> 'e option" where
  "firstFailure ss = (case dropWhile completes ss of Fails e # rest \<Rightarrow> Some e | _ \<Rightarrow> None)"

text \<open>
  The contract: on a failure exactly the registered teardowns have been called, in reverse
  order of acquisition, and the error is returned with no application and no cleanup
  function; on success no teardown has been called and the returned cleanup function calls
  the registered teardowns in reverse order.
\<close>

definition teardownContract :: "('e, 'c) step list \<Rightarrow> ('e, 'c) injected" where
  "teardownContract ss =
     (case firstFailure ss of
        Some e \<Rightarrow> \<lparr>app = False, cleanupFn = None, error = Some e, called = rev (registered ss)\<rparr>
      | None \<Rightarrow> \<lparr>app = True, cleanupFn = Some (rev (registered ss)), error = None, called = []\<rparr>)"

section \<open>Example inputs\<close>

text \<open>Concrete programs on which the theorems below are exercised.\<close>

definition fileSet0 :: FileSet where
  "fileSet0 p = (''app.go'', p, 1)"

definition intType :: gotype where
  "intType = Basic ''int''"

definition stringType :: gotype where
  "stringType = Basic ''string''"

text \<open>\<open>func NewPair(a int, b int)\<close>: two parameters of one type, and no result.\<close>

definition fnNoResult :: Func where
  "fnNoResult = \<lparr>fn_Pkg = Some ''example.com/app'', fn_Name = ''NewPair'', fn_Pos = 42,
     fn_Type = \<lparr>Params = [intType, intType], Results = [], Variadic = False\<rparr>\<rparr>"

text \<open>\<open>func NewSum(a int, b int) string\<close>: two parameters of one type.\<close>

definition fnTwoInts :: Func where
  "fnTwoInts = \<lparr>fn_Pkg = Some ''example.com/app'', fn_Name = ''NewSum'', fn_Pos = 50,
     fn_Type = \<lparr>Params = [intType, intType], Results = [stringType], Variadic = False\<rparr>\<rparr>"

text \<open>\<open>func NewLabel(n int) (string, error)\<close>.\<close>

definition fnLabel :: Func where
  "fnLabel = \<lparr>fn_Pkg = Some ''example.com/app'', fn_Name = ''NewLabel'', fn_Pos = 60,
     fn_Type = \<lparr>Params = [intType], Results = [stringType, errorType], Variadic = False\<rparr>\<rparr>"

text \<open>\<open>type Config struct { Host string; Port int }\<close> and \<open>type Pair struct { A int; B int }\<close>.\<close>

definition configType :: gotype where
  "configType = Named ''example.com/app'' ''Config''
     (Struct [(''Host'', stringType), (''Port'', intType)]) []"

definition tnConfig :: TypeName where
  "tnConfig = \<lparr>tn_Pkg = Some ''example.com/app'', tn_Name = ''Config'', tn_Pos = 10,
     tn_Type = configType\<rparr>"

definition tnPair :: TypeName where
  "tnPair = \<lparr>tn_Pkg = Some ''example.com/app'', tn_Name = ''Pair'', tn_Pos = 20,
     tn_Type = Named ''example.com/app'' ''Pair'' (Struct [(''A'', intType), (''B'', intType)]) []\<rparr>"

text \<open>
  \<open>type Reader interface { Read() string }\<close>, implemented by
  \<open>type File struct{}\<close> with \<open>func (File) Read() string\<close>.
\<close>

definition readSig :: gotype where
  "readSig = Signature [] [stringType] False"

definition readerType :: gotype where
  "readerType = Named ''example.com/app'' ''Reader'' (Interface [(''Read'', readSig)]) []"

definition fileType :: gotype where
  "fileType = Named ''example.com/app'' ''File'' (Struct []) [(''Read'', readSig, False)]"

text \<open>
  Identifiers of package-level variables: \<open>readerPtr *Reader\<close>, \<open>file File\<close>,
  \<open>defaultReader Reader\<close>, \<open>port int\<close> and \<open>ch chan int\<close>; the function
  \<open>func NewReader() Reader\<close>; and the selectors \<open>wire.Bind\<close> and \<open>wire.Value\<close>.
\<close>

definition exReaderPtr :: expr where
  "exReaderPtr = Ident 110 ''readerPtr'' None"

definition exFile :: expr where
  "exFile = Ident 120 ''file'' None"

definition exDefaultReader :: expr where
  "exDefaultReader = Ident 130 ''defaultReader'' None"

definition exPort :: expr where
  "exPort = Ident 140 ''port'' None"

definition exNewReader :: expr where
  "exNewReader = Ident 150 ''NewReader'' None"

definition wireSel :: "nat \<Rightarrow> string \<Rightarrow> expr" where
  "wireSel p n =
     SelectorExpr (Ident p ''wire'' (Some (ObjPkgName (Some ''example.com/app'') ''wire'')))
       (p + 5) n
       (Some (ObjFunc \<lparr>fn_Pkg = Some ''github.com/google/go-cloud/wire'', fn_Name = n, fn_Pos = 0,
                        fn_Type = \<lparr>Params = [], Results = [], Variadic = False\<rparr>\<rparr>))"

text \<open>
  The arguments of \<open>wire.Value\<close>: the call \<open>NewReader()\<close>, the function literal
  \<open>func() {}\<close>, the receive \<open><-ch\<close> and the struct literal
  \<open>Config{Host: "localhost", Port: port}\<close>.
\<close>

definition exCall :: expr where
  "exCall = CallExpr exNewReader []"

definition exFuncLit :: expr where
  "exFuncLit = Node 160 FuncLit [Node 160 FuncType [Node 164 FieldList []], Node 167 Stmt []]"

definition exReceive :: expr where
  "exReceive = UnaryExpr 170 ARROW (Ident 172 ''ch'' None)"

definition exStructLit :: expr where
  "exStructLit =
     CompositeLit (Some (Ident 180 ''Config'' (Some (ObjTypeName tnConfig)))) 186
       [Node 187 KeyValueExpr [Ident 187 ''Host'' None, Node 193 BasicLit []],
        Node 206 KeyValueExpr [Ident 206 ''Port'' None, exPort]]"

text \<open>
  The conversion \<open>string(port)\<close>, and the call \<open>tick()\<close> of the variable
  \<open>var tick Ticker\<close> with \<open>type Ticker func() int\<close>.
\<close>

definition exStringName :: expr where
  "exStringName = Ident 220 ''string''
     (Some (ObjTypeName \<lparr>tn_Pkg = None, tn_Name = ''string'', tn_Pos = 0, tn_Type = stringType\<rparr>))"

definition exConversion :: expr where
  "exConversion = CallExpr exStringName [exPort]"

definition tickerType :: gotype where
  "tickerType = Named ''example.com/app'' ''Ticker'' (Signature [] [intType] False) []"

definition exTick :: expr where
  "exTick = Ident 230 ''tick'' (Some (ObjVar (Some ''example.com/app'') ''tick'' 90 (Some ([''tick''], []))))"

definition exTickCall :: expr where
  "exTickCall = CallExpr exTick []"

definition exTypeOf :: "expr \<Rightarrow> gotype" where
  "exTypeOf e =
     (if e = exReaderPtr then Pointer readerType
      else if e = exFile then fileType
      else if e = exDefaultReader then readerType
      else if e = exNewReader then Signature [] [readerType] False
      else if e = exCall then readerType
      else if e = exFuncLit then Signature [] [] False
      else if e = exStructLit then configType
      else if e = exStringName then stringType
      else if e = exConversion then stringType
      else if e = exTick then tickerType
      else intType)"

definition exInfo :: Info where
  "exInfo = \<lparr>TypeOf = exTypeOf\<rparr>"

text \<open>A provider set whose merged index holds the injector argument \<open>s string\<close> only.\<close>

definition exArg :: InjectorArg where
  "exArg = \<lparr>InjectorArg_Args = \<lparr>InjectorArgs_Name = ''inject'', Tuple = [(''s'', stringType)],
       InjectorArgs_Pos = 7\<rparr>, Index = 0\<rparr>"

definition exIndex :: "gotype \<Rightarrow> ProvidedType option" where
  "exIndex t = (if t = stringType
                then Some \<lparr>pt_t = Some stringType, pt_p = None, pt_v = None, pt_a = Some exArg\<rparr>
                else None)"

definition exSet :: "unit ProviderSet" where
  "exSet = ProviderSet 0 ''example.com/app'' ''Set'' [] [] [] [] None (Some exIndex) None"

text \<open>
  The object cache of the package \<open>example.com/app\<close> with an empty memo table, and three stand-ins for the analysis
  of a set: one that accepts every set, one whose \<open>buildProviderMap\<close> reports a conflict, and
  one whose \<open>verifyAcyclic\<close> reports a cycle.
\<close>

definition exOc :: "unit objectCache" where
  "exOc = \<lparr>oc_fset = fileSet0,
            oc_packages = (\<lambda>p. if p = ''example.com/app'' then Some exInfo else None),
            oc_objects = (\<lambda>ref. None)\<rparr>"

definition exAnalysis :: "unit analysis" where
  "exAnalysis = \<lparr>buildProviderMap = (\<lambda>fset pset. (Some exIndex, Some (\<lambda>t. None), [])),
                  verifyAcyclic = (\<lambda>pm. [])\<rparr>"

definition exAnalysisConflict :: "unit analysis" where
  "exAnalysisConflict =
     \<lparr>buildProviderMap = (\<lambda>fset pset. (None, None, [New ''multiple bindings for string''])),
      verifyAcyclic = (\<lambda>pm. [])\<rparr>"

definition exAnalysisCycle :: "unit analysis" where
  "exAnalysisCycle = \<lparr>buildProviderMap = (\<lambda>fset pset. (Some exIndex, Some (\<lambda>t. None), [])),
                       verifyAcyclic = (\<lambda>pm. [New ''cycle for string''])\<rparr>"

text \<open>
  The arguments of \<open>wire.NewSet(NewPair, NewLabel, NewSum)\<close>: the first and the third
  function are no legal providers.
\<close>

definition exIdNewPair :: expr where
  "exIdNewPair = Ident 310 ''NewPair'' (Some (ObjFunc fnNoResult))"

definition exIdNewLabel :: expr where
  "exIdNewLabel = Ident 320 ''NewLabel'' (Some (ObjFunc fnLabel))"

definition exIdNewSum :: expr where
  "exIdNewSum = Ident 330 ''NewSum'' (Some (ObjFunc fnTwoInts))"

definition exProviderLabel :: Provider where
  "exProviderLabel =
     \<lparr>Pkg = Some ''example.com/app'', Name = ''NewLabel'', Pos' = 60, Args = [\<lparr>Type = intType\<rparr>],
      IsStruct = False, Fields = [], Out = [stringType], HasCleanup = False, HasErr = True\<rparr>"

definition exErrNewPair :: error where
  "exErrNewPair =
     notePosition (Position fileSet0 310) (notePosition (Position fileSet0 42)
       (Errorf ''wrong signature for provider %s: %v''
          [Str ''NewPair'', Cause (New ''no return values'')]))"

definition exErrNewSum :: error where
  "exErrNewSum =
     notePosition (Position fileSet0 330) (notePosition (Position fileSet0 50)
       (Errorf ''provider has multiple parameters of type %s'' [TypeString intType]))"

text \<open>
  What \<open>get\<close> stores in the memo table for the three functions, and the memo table after
  the arguments of \<open>wire.NewSet(NewPair, NewLabel, NewSum)\<close> one after the other.
\<close>

definition exEntryPair :: "unit item option \<times> error list" where
  "exEntryPair =
     (None, [notePosition (Position fileSet0 42)
        (Errorf ''wrong signature for provider %s: %v''
           [Str ''NewPair'', Cause (New ''no return values'')])])"

definition exEntryLabel :: "unit item option \<times> error list" where
  "exEntryLabel = (Some (ItemProvider exProviderLabel), [])"

definition exEntrySum :: "unit item option \<times> error list" where
  "exEntrySum =
     (None, [notePosition (Position fileSet0 50)
        (Errorf ''provider has multiple parameters of type %s'' [TypeString intType])])"

definition exOcPair :: "unit objectCache" where
  "exOcPair = remember exOc (''example.com/app'', ''NewPair'') exEntryPair"

definition exOcPairLabel :: "unit objectCache" where
  "exOcPairLabel = remember exOcPair (''example.com/app'', ''NewLabel'') exEntryLabel"

definition exOcAll :: "unit objectCache" where
  "exOcAll = remember exOcPairLabel (''example.com/app'', ''NewSum'') exEntrySum"

definition exOcLabel :: "unit objectCache" where
  "exOcLabel = remember exOc (''example.com/app'', ''NewLabel'') exEntryLabel"

text \<open>
  The predeclared identifier \<open>nil\<close>, an object of the universe scope: its package is nil.
\<close>

definition exIdNil :: expr where
  "exIdNil = Ident 340 ''nil'' (Some (ObjOther None ''nil''))"

section \<open>Teardown discipline of the generated injectors\<close>

lemma firstFailure_Completes: "firstFailure (Completes c # ss) = firstFailure ss"
  by (simp add: firstFailure_def)

lemma firstFailure_Fails: "firstFailure (Fails e # ss) = Some e"
  by (simp add: firstFailure_def)

lemma firstFailure_Nil: "firstFailure [] = None"
  by (simp add: firstFailure_def)

lemma registered_Completes_None: "registered (Completes None # ss) = registered ss"
  by (simp add: registered_def completedSteps_def)

lemma registered_Completes_Some: "registered (Completes (Some c) # ss) = c # registered ss"
  by (simp add: registered_def completedSteps_def)

lemma registered_Fails: "registered (Fails e # ss) = []"
  by (simp add: registered_def completedSteps_def)

lemma registered_Nil: "registered [] = []"
  by (simp add: registered_def completedSteps_def)

lemmas contract_simps =
  teardownContract_def failed_def succeeded_def
  fallible_def fallibleWithTeardown_def withTeardown_def
  firstFailure_Completes firstFailure_Fails firstFailure_Nil
  registered_Completes_None registered_Completes_Some registered_Fails registered_Nil

text \<open>
  Each injector is followed call by call: when a call fails, the steps before it are known
  to have completed and the verdict of the contract does not depend on the later steps.
\<close>

lemma setupAWS_contract: "setupAWS env = teardownContract (aws_steps env)"
  unfolding setupAWS_def aws_steps_def
  apply (cases "rdsmysql_Open env"; simp add: contract_simps)
  apply (cases "session_NewSessionWithOptions env"; simp add: contract_simps)
  apply (cases "xrayserver_NewExporter env"; simp add: contract_simps)
  apply (cases "awsBucket env"; simp add: contract_simps)
  apply (cases "awsMOTDVar env"; simp add: contract_simps)
  done

lemma setupGCP_contract: "setupGCP env = teardownContract (gcp_steps env)"
  unfolding setupGCP_def gcp_steps_def
  apply (cases "gcp_DefaultCredentials env"; simp add: contract_simps)
  apply (cases "gcp_NewHTTPClient env"; simp add: contract_simps)
  apply (cases "gcp_DefaultProjectID env"; simp add: contract_simps)
  apply (cases "cloudmysql_Open env"; simp add: contract_simps)
  apply (cases "sdserver_NewExporter env"; simp add: contract_simps)
  apply (cases "gcpBucket env"; simp add: contract_simps)
  apply (cases "runtimeconfigurator_Dial env"; simp add: contract_simps)
  apply (cases "gcpMOTDVar env"; simp add: contract_simps)
  done

lemma setupLocal_contract: "setupLocal env = teardownContract (local_steps env)"
  unfolding setupLocal_def local_steps_def
  apply (cases "dialLocalSQL env"; simp add: contract_simps)
  apply (cases "localBucket env"; simp add: contract_simps)
  apply (cases "localRuntimeVar env"; simp add: contract_simps)
  done

text \<open>
  C1. In every generated injector function (\<open>setupAWS\<close>, \<open>setupGCP\<close>, \<open>setupLocal\<close>), when a
  construction step fails, exactly the teardown callbacks registered by previously completed
  steps are invoked, in strict reverse order of acquisition, each exactly once, before the
  error is returned; a step that has registered no teardowns yet returns the error with no
  teardown calls; and on success the single returned aggregate cleanup function invokes all
  registered teardowns in reverse construction order.
\<close>

theorem injectors_teardown_order:
  "setupAWS aws = teardownContract (aws_steps aws)
   \<and> setupGCP gcp = teardownContract (gcp_steps gcp)
   \<and> setupLocal loc = teardownContract (local_steps loc)"
  by (simp add: setupAWS_contract setupGCP_contract setupLocal_contract)

section \<open>Result shapes of providers and injectors\<close>

text \<open>
  C2, as amended. For every provider or injector function signature, \<open>funcOutput\<close> returns
  an error if and only if the signature has zero results, more than three results, a second
  result (of two) that is neither \<open>error\<close> nor \<open>func()\<close>, or three results whose second is
  not \<open>func()\<close> or whose third is not \<open>error\<close>. In every accepted case it returns the first
  result type as the output, with the \<open>err\<close> flag set exactly when a result after the first
  is \<open>error\<close> and the \<open>cleanup\<close> flag set exactly when a result after the first is
  \<open>func()\<close>. A single result is the output whatever its type, and both flags are then
  false.
\<close>

theorem funcOutput_shapes:
  "isl (funcOutput sig) =
     (length (Results sig) = 0 \<or> 3 < length (Results sig)
      \<or> (length (Results sig) = 2 \<and> Results sig ! 1 \<noteq> errorType \<and> Results sig ! 1 \<noteq> cleanupType)
      \<or> (length (Results sig) = 3 \<and> (Results sig ! 1 \<noteq> cleanupType \<or> Results sig ! 2 \<noteq> errorType)))
   \<and> (\<forall>s. funcOutput sig = Inr s \<longrightarrow>
          out s = Results sig ! 0
          \<and> err s = (errorType \<in> set (tl (Results sig)))
          \<and> cleanup s = (cleanupType \<in> set (tl (Results sig))))
   \<and> (length (Results sig) = 1 \<longrightarrow>
        funcOutput sig = Inr \<lparr>out = Results sig ! 0, cleanup = False, err = False\<rparr>)"
proof -
  have ne: "errorType \<noteq> cleanupType" by (simp add: errorType_def cleanupType_def)
  consider "length (Results sig) = 0" | "length (Results sig) = 1" | "length (Results sig) = 2"
    | "length (Results sig) = 3" | "3 < length (Results sig)" by arith
  then show ?thesis
  proof cases
    case 1
    then show ?thesis by (simp add: funcOutput_def Let_def)
  next
    case 2
    then obtain a where "Results sig = [a]" by (cases "Results sig") auto
    then show ?thesis by (simp add: funcOutput_def Let_def)
  next
    case 3
    then obtain a b where "Results sig = [a, b]"
      by (cases "Results sig"; cases "tl (Results sig)") auto
    then show ?thesis using ne by (auto simp add: funcOutput_def Identical_def Let_def)
  next
    case 4
    then obtain a b c where "Results sig = [a, b, c]"
      by (cases "Results sig"; cases "tl (Results sig)"; cases "tl (tl (Results sig))") auto
    then show ?thesis using ne by (auto simp add: funcOutput_def Identical_def Let_def)
  next
    case 5
    then show ?thesis by (auto simp add: funcOutput_def Let_def)
  qed
qed

theorem funcOutput_shapes_witness:
  "funcOutput \<lparr>Params = [], Results = [Basic ''DB'', cleanupType, errorType], Variadic = False\<rparr>
     = Inr \<lparr>out = Basic ''DB'', cleanup = True, err = True\<rparr>
   \<and> out \<lparr>out = Basic ''DB'', cleanup = True, err = True\<rparr> = [Basic ''DB'', cleanupType, errorType] ! 0
   \<and> errorType \<in> set (tl [Basic ''DB'', cleanupType, errorType])
   \<and> cleanupType \<in> set (tl [Basic ''DB'', cleanupType, errorType])
   \<and> \<not> isl (funcOutput \<lparr>Params = [], Results = [Basic ''DB'', cleanupType, errorType], Variadic = False\<rparr>)"
proof -
  have h: "funcOutput \<lparr>Params = [], Results = [Basic ''DB'', cleanupType, errorType], Variadic = False\<rparr>
     = Inr \<lparr>out = Basic ''DB'', cleanup = True, err = True\<rparr>"
    by (simp add: funcOutput_def Identical_def Let_def)
  show ?thesis
    using h funcOutput_shapes [of "\<lparr>Params = [], Results = [Basic ''DB'', cleanupType, errorType], Variadic = False\<rparr>"]
    by simp
qed

text \<open>
  C2 as it was stated fails for the signatures \<open>func() error\<close> and \<open>func() func()\<close>: an
  \<open>error\<close> result, or a \<open>func()\<close> result, is present and is the output, and neither flag
  is set.
\<close>

theorem funcOutput_flags_counterexample:
  "funcOutput \<lparr>Params = [], Results = [errorType], Variadic = False\<rparr>
     = Inr \<lparr>out = errorType, cleanup = False, err = False\<rparr>
   \<and> errorType \<in> set (Results \<lparr>Params = [], Results = [errorType], Variadic = False\<rparr>)
   \<and> funcOutput \<lparr>Params = [], Results = [cleanupType], Variadic = False\<rparr>
     = Inr \<lparr>out = cleanupType, cleanup = False, err = False\<rparr>
   \<and> cleanupType \<in> set (Results \<lparr>Params = [], Results = [cleanupType], Variadic = False\<rparr>)"
  by (simp add: funcOutput_def Let_def)

section \<open>Duplicate input types\<close>

lemma firstIdentical_None: "(firstIdentical a bs = None) = (Type a \<notin> set (map Type bs))"
  by (induction bs) (auto simp: Identical_def)

lemma firstIdentical_Some: "firstIdentical a bs = Some d \<Longrightarrow> d = Type a \<and> d \<in> set (map Type bs)"
  by (induction bs) (auto simp: Identical_def split: if_splits)

lemma fillArgs_distinct:
  "distinct (map Type acc @ ts) \<Longrightarrow> fillArgs acc ts = Inr (acc @ map (\<lambda>t. \<lparr>Type = t\<rparr>) ts)"
proof (induction ts arbitrary: acc)
  case Nil
  show ?case by simp
next
  case (Cons t ts)
  from Cons.prems have "firstIdentical \<lparr>Type = t\<rparr> acc = None"
    by (simp add: firstIdentical_None)
  moreover from Cons.prems have "distinct (map Type (acc @ [\<lparr>Type = t\<rparr>]) @ ts)"
    by auto
  ultimately show ?case using Cons.IH [of "acc @ [\<lparr>Type = t\<rparr>]"] by simp
qed

lemma fillArgs_duplicate:
  "distinct (map Type acc) \<Longrightarrow> \<not> distinct (map Type acc @ ts) \<Longrightarrow>
     \<exists>d. fillArgs acc ts = Inl d \<and> 1 < count_list (map Type acc @ ts) d"
proof (induction ts arbitrary: acc)
  case Nil
  then show ?case by simp
next
  case (Cons t ts)
  show ?case
  proof (cases "firstIdentical \<lparr>Type = t\<rparr> acc")
    case (Some d)
    then have d: "d = t" "t \<in> set (map Type acc)"
      using firstIdentical_Some [of "\<lparr>Type = t\<rparr>" acc d] by auto
    then have "0 < count_list (map Type acc) t"
      using count_list_0_iff [of "map Type acc" t] by auto
    then have "1 < count_list (map Type acc @ t # ts) t" by simp
    with Some d show ?thesis by simp
  next
    case None
    then have fresh: "t \<notin> set (map Type acc)" by (simp add: firstIdentical_None)
    with Cons.prems have d1: "distinct (map Type (acc @ [\<lparr>Type = t\<rparr>]))" by simp
    from Cons.prems have d2: "\<not> distinct (map Type (acc @ [\<lparr>Type = t\<rparr>]) @ ts)" by simp
    from Cons.IH [OF d1 d2] None show ?thesis by simp
  qed
qed

lemma fillArgs_Inr: "fillArgs acc ts = Inr args \<Longrightarrow> map Type args = map Type acc @ ts"
  by (induction ts arbitrary: acc) (auto split: option.splits)

text \<open>
  C3, as amended. For every candidate provider, if two of its input types are identical then
  construction fails with one fatal error annotated with the provider's source location, and
  no Provider is returned. For a function provider whose result signature \<open>funcOutput\<close>
  accepts, that error is "provider has multiple parameters of type T" for a type T that occurs
  more than once among the parameters; a function provider whose result signature is rejected
  fails with the "wrong signature" error, whatever its parameters are. For a struct provider
  the error is "provider struct has multiple fields of type T". A provider whose input types
  are pairwise distinct is not rejected for this reason: a function provider with an accepted
  result signature and a named struct type are then returned with no error.
\<close>

theorem duplicate_inputs_rejected:
  "(\<not> distinct (Params (fn_Type fn)) \<longrightarrow>
      (\<exists>e. processFuncProvider fset fn = (None, [notePosition (Position fset (fn_Pos fn)) e])
         \<and> (\<forall>s. funcOutput (fn_Type fn) = Inr s \<longrightarrow>
              (\<exists>T. 1 < count_list (Params (fn_Type fn)) T
                 \<and> e = Errorf ''provider has multiple parameters of type %s'' [TypeString T]))
         \<and> (\<forall>e0. funcOutput (fn_Type fn) = Inl e0 \<longrightarrow>
              e = Errorf ''wrong signature for provider %s: %v'' [Str (fn_Name fn), Cause e0])))
   \<and> (distinct (Params (fn_Type fn)) \<longrightarrow>
        (\<forall>s. funcOutput (fn_Type fn) = Inr s \<longrightarrow>
           (\<exists>p. processFuncProvider fset fn = (Some p, []))))
   \<and> (Underlying (tn_Type tn) = Struct flds \<longrightarrow>
        (\<not> distinct (map snd flds) \<longrightarrow>
           (\<exists>T. 1 < count_list (map snd flds) T
              \<and> processStructProvider fset tn =
                  (None, [notePosition (Position fset (tn_Pos tn))
                     (Errorf ''provider struct has multiple fields of type %s'' [TypeString T])])))
        \<and> (distinct (map snd flds) \<longrightarrow> (\<exists>p. processStructProvider fset tn = (Some p, []))))"
proof (intro conjI impI)
  assume dup: "\<not> distinct (Params (fn_Type fn))"
  show "\<exists>e. processFuncProvider fset fn = (None, [notePosition (Position fset (fn_Pos fn)) e])
         \<and> (\<forall>s. funcOutput (fn_Type fn) = Inr s \<longrightarrow>
              (\<exists>T. 1 < count_list (Params (fn_Type fn)) T
                 \<and> e = Errorf ''provider has multiple parameters of type %s'' [TypeString T]))
         \<and> (\<forall>e0. funcOutput (fn_Type fn) = Inl e0 \<longrightarrow>
              e = Errorf ''wrong signature for provider %s: %v'' [Str (fn_Name fn), Cause e0])"
  proof (cases "funcOutput (fn_Type fn)")
    case (Inl e0)
    then show ?thesis by (simp add: processFuncProvider_def Let_def)
  next
    case (Inr s)
    from fillArgs_duplicate [of "[]" "Params (fn_Type fn)"] dup
    obtain d where "fillArgs [] (Params (fn_Type fn)) = Inl d"
      "1 < count_list (Params (fn_Type fn)) d" by auto
    with Inr show ?thesis by (auto simp add: processFuncProvider_def Let_def)
  qed
next
  assume "distinct (Params (fn_Type fn))"
  then have "fillArgs [] (Params (fn_Type fn)) = Inr (map (\<lambda>t. \<lparr>Type = t\<rparr>) (Params (fn_Type fn)))"
    using fillArgs_distinct [of "[]" "Params (fn_Type fn)"] by simp
  then show "\<forall>s. funcOutput (fn_Type fn) = Inr s \<longrightarrow>
           (\<exists>p. processFuncProvider fset fn = (Some p, []))"
    by (simp add: processFuncProvider_def Let_def)
next
  assume st: "Underlying (tn_Type tn) = Struct flds" and dup: "\<not> distinct (map snd flds)"
  from fillArgs_duplicate [of "[]" "map snd flds"] dup
  obtain d where "fillArgs [] (map snd flds) = Inl d" "1 < count_list (map snd flds) d" by auto
  with st show "\<exists>T. 1 < count_list (map snd flds) T
              \<and> processStructProvider fset tn =
                  (None, [notePosition (Position fset (tn_Pos tn))
                     (Errorf ''provider struct has multiple fields of type %s'' [TypeString T])])"
    by (auto simp add: processStructProvider_def Let_def)
next
  assume st: "Underlying (tn_Type tn) = Struct flds" and "distinct (map snd flds)"
  then have "fillArgs [] (map snd flds) = Inr (map (\<lambda>t. \<lparr>Type = t\<rparr>) (map snd flds))"
    using fillArgs_distinct [of "[]" "map snd flds"] by simp
  with st show "\<exists>p. processStructProvider fset tn = (Some p, [])"
    by (simp add: processStructProvider_def Let_def)
qed

theorem duplicate_inputs_rejected_witness:
  "\<not> distinct (Params (fn_Type fnTwoInts))
   \<and> processFuncProvider fileSet0 fnTwoInts =
       (None, [notePosition (Position fileSet0 50)
          (Errorf ''provider has multiple parameters of type %s'' [TypeString intType])])
   \<and> distinct (Params (fn_Type fnLabel))
   \<and> fst (processFuncProvider fileSet0 fnLabel) \<noteq> None
   \<and> \<not> distinct (map snd [(''A'', intType), (''B'', intType)])
   \<and> processStructProvider fileSet0 tnPair =
       (None, [notePosition (Position fileSet0 20)
          (Errorf ''provider struct has multiple fields of type %s'' [TypeString intType])])"
proof -
  have a: "funcOutput (fn_Type fnTwoInts) = Inr \<lparr>out = stringType, cleanup = False, err = False\<rparr>"
    by (simp add: funcOutput_def fnTwoInts_def Let_def)
  have b: "funcOutput (fn_Type fnLabel) = Inr \<lparr>out = stringType, cleanup = False, err = True\<rparr>"
    by (simp add: funcOutput_def fnLabel_def Let_def Identical_def)
  have c: "Underlying (tn_Type tnPair) = Struct [(''A'', intType), (''B'', intType)]"
    by (simp add: tnPair_def)
  have d: "\<not> distinct (Params (fn_Type fnTwoInts))" "distinct (Params (fn_Type fnLabel))"
    by (simp_all add: fnTwoInts_def fnLabel_def)
  have e: "count_list [intType, intType] T > 1 \<Longrightarrow> T = intType" for T
    by (simp split: if_splits)
  from duplicate_inputs_rejected [of fnTwoInts fileSet0 tnPair "[(''A'', intType), (''B'', intType)]"]
    a c d(1) e
  have 1: "processFuncProvider fileSet0 fnTwoInts =
       (None, [notePosition (Position fileSet0 50)
          (Errorf ''provider has multiple parameters of type %s'' [TypeString intType])])"
    and 2: "processStructProvider fileSet0 tnPair =
       (None, [notePosition (Position fileSet0 20)
          (Errorf ''provider struct has multiple fields of type %s'' [TypeString intType])])"
    by (auto simp add: fnTwoInts_def tnPair_def)
  from duplicate_inputs_rejected [of fnLabel fileSet0 tnPair "[(''A'', intType), (''B'', intType)]"]
    b d(2)
  have 3: "fst (processFuncProvider fileSet0 fnLabel) \<noteq> None" by auto
  from 1 2 3 d show ?thesis by simp
qed

text \<open>
  C3 as it was stated fails for a function that has two parameters of one type and an
  illegal result signature: \<open>func NewPair(a int, b int)\<close> is rejected for its missing result,
  with the "wrong signature" error, and not with "provider has multiple parameters".
\<close>

theorem duplicate_inputs_counterexample:
  "\<not> distinct (Params (fn_Type fnNoResult))
   \<and> processFuncProvider fileSet0 fnNoResult =
       (None, [notePosition (Position fileSet0 42)
          (Errorf ''wrong signature for provider %s: %v''
             [Str ''NewPair'', Cause (New ''no return values'')])])
   \<and> processFuncProvider fileSet0 fnNoResult \<noteq>
       (None, [notePosition (Position fileSet0 42)
          (Errorf ''provider has multiple parameters of type %s'' [TypeString intType])])"
  by (simp add: processFuncProvider_def funcOutput_def fnNoResult_def Let_def notePosition_def)

section \<open>Struct providers\<close>

text \<open>
  C4. For every named struct type accepted as a struct provider, the resulting single
  Provider rule has \<open>Out\<close> equal to exactly two types, the struct type itself and the pointer
  to that struct type, has one input and one field name per struct field in order, and has
  both the teardown and error effect flags false.
\<close>

theorem struct_provider_shape:
  "processStructProvider fset tn = (Some p, errs) \<Longrightarrow>
     \<exists>flds. Underlying (tn_Type tn) = Struct flds
       \<and> Out p = [tn_Type tn, Pointer (tn_Type tn)]
       \<and> map Type (Args p) = map snd flds
       \<and> Fields p = map fst flds
       \<and> \<not> HasCleanup p \<and> \<not> HasErr p \<and> IsStruct p \<and> errs = []"
proof -
  assume ok: "processStructProvider fset tn = (Some p, errs)"
  then obtain flds where st: "Underlying (tn_Type tn) = Struct flds"
    by (cases "Underlying (tn_Type tn)") (simp_all add: processStructProvider_def Let_def)
  with ok obtain args where fill: "fillArgs [] (map snd flds) = Inr args"
    by (cases "fillArgs [] (map snd flds)") (simp_all add: processStructProvider_def Let_def)
  from fillArgs_Inr [OF fill] have "map Type args = map snd flds" by simp
  with ok st fill show ?thesis
    by (auto simp add: processStructProvider_def Let_def)
qed

theorem struct_provider_shape_witness:
  "processStructProvider fileSet0 tnConfig =
     (Some \<lparr>Pkg = Some ''example.com/app'', Name = ''Config'', Pos' = 10,
            Args = [\<lparr>Type = stringType\<rparr>, \<lparr>Type = intType\<rparr>], IsStruct = True,
            Fields = [''Host'', ''Port''], Out = [configType, Pointer configType],
            HasCleanup = False, HasErr = False\<rparr>, [])
   \<and> Underlying (tn_Type tnConfig) = Struct [(''Host'', stringType), (''Port'', intType)]"
proof -
  have diff: "\<not> Identical intType stringType"
    by (simp add: Identical_def intType_def stringType_def)
  have run: "processStructProvider fileSet0 tnConfig =
     (Some \<lparr>Pkg = Some ''example.com/app'', Name = ''Config'', Pos' = 10,
            Args = [\<lparr>Type = stringType\<rparr>, \<lparr>Type = intType\<rparr>], IsStruct = True,
            Fields = [''Host'', ''Port''], Out = [configType, Pointer configType],
            HasCleanup = False, HasErr = False\<rparr>, [])"
    by (simp add: processStructProvider_def tnConfig_def configType_def Let_def diff)
  from struct_provider_shape [OF run] run show ?thesis
    by (simp add: tnConfig_def configType_def)
qed

section \<open>Interface bindings\<close>

lemma Implements_own_methods: "Underlying iface = Interface ms \<Longrightarrow> Implements iface ms"
proof -
  assume u: "Underlying iface = Interface ms"
  then have "method_set iface = ms"
    by (cases iface rule: method_set.cases) simp_all
  then show ?thesis
    by (simp add: Implements_def list_all_iff)
qed

text \<open>
  C5. For every \<open>wire.Bind\<close> call with two arguments whose first argument is a pointer to an
  interface type, processing fails with an "implements" error when the second argument's type
  does not implement the interface's method set, fails with a self-binding error when the
  second argument's type is identical to the interface type, and otherwise succeeds, returning
  an \<open>IfaceBinding\<close> whose \<open>Provided\<close> type implements its \<open>Iface\<close> type.
\<close>

theorem processBind_outcomes:
  assumes "callArgs = [ifaceArg, providedArg]"
    and "TypeOf info ifaceArg = Pointer iface"
    and "Underlying iface = Interface ms"
  shows "(\<not> Implements (TypeOf info providedArg) ms \<longrightarrow>
            processBind fset info callFun callArgs =
              (None, Some (notePosition (Position fset (ExprPos callFun))
                 (Errorf ''%s does not implement %s''
                    [TypeString (TypeOf info providedArg), TypeString iface]))))
       \<and> (TypeOf info providedArg = iface \<longrightarrow>
            processBind fset info callFun callArgs =
              (None, Some (notePosition (Position fset (ExprPos callFun))
                 (New ''cannot bind interface to itself''))))
       \<and> (Implements (TypeOf info providedArg) ms \<and> TypeOf info providedArg \<noteq> iface \<longrightarrow>
            (\<exists>b. processBind fset info callFun callArgs = (Some b, None)
               \<and> Iface b = iface \<and> Provided b = TypeOf info providedArg
               \<and> Implements (Provided b) ms))"
proof (intro conjI impI)
  assume no: "\<not> Implements (TypeOf info providedArg) ms"
  with Implements_own_methods [OF assms(3)] have "TypeOf info providedArg \<noteq> iface" by auto
  with no assms show "processBind fset info callFun callArgs =
      (None, Some (notePosition (Position fset (ExprPos callFun))
         (Errorf ''%s does not implement %s'' [TypeString (TypeOf info providedArg), TypeString iface])))"
    by (auto simp add: processBind_def Let_def Identical_def)
next
  assume "TypeOf info providedArg = iface"
  with assms show "processBind fset info callFun callArgs =
      (None, Some (notePosition (Position fset (ExprPos callFun))
         (New ''cannot bind interface to itself'')))"
    by (simp add: processBind_def Let_def Identical_def)
next
  assume "Implements (TypeOf info providedArg) ms \<and> TypeOf info providedArg \<noteq> iface"
  with assms show "\<exists>b. processBind fset info callFun callArgs = (Some b, None)
               \<and> Iface b = iface \<and> Provided b = TypeOf info providedArg
               \<and> Implements (Provided b) ms"
    by (auto simp add: processBind_def Let_def Identical_def)
qed

lemma ex_types:
  "TypeOf exInfo exReaderPtr = Pointer readerType"
  "TypeOf exInfo exFile = fileType"
  "TypeOf exInfo exDefaultReader = readerType"
  "TypeOf exInfo exPort = intType"
  "TypeOf exInfo exNewReader = Signature [] [readerType] False"
  "TypeOf exInfo exCall = readerType"
  "TypeOf exInfo exStructLit = configType"
  "TypeOf exInfo exStringName = stringType"
  "TypeOf exInfo exConversion = stringType"
  "TypeOf exInfo exTick = tickerType"
  "TypeOf exInfo exTickCall = intType"
  by (simp_all add: exInfo_def exTypeOf_def exReaderPtr_def exFile_def exDefaultReader_def
      exPort_def exNewReader_def exCall_def exFuncLit_def exStructLit_def exStringName_def
      exConversion_def exTick_def exTickCall_def)

theorem processBind_outcomes_witness:
  "processBind fileSet0 exInfo (wireSel 100 ''Bind'') [exReaderPtr, exFile] =
     (Some \<lparr>Iface = readerType, Provided = fileType, Binding_Pos = 100\<rparr>, None)
   \<and> Implements fileType [(''Read'', readSig)]
   \<and> processBind fileSet0 exInfo (wireSel 100 ''Bind'') [exReaderPtr, exDefaultReader] =
       (None, Some (notePosition (Position fileSet0 100) (New ''cannot bind interface to itself'')))
   \<and> \<not> Implements intType [(''Read'', readSig)]
   \<and> processBind fileSet0 exInfo (wireSel 100 ''Bind'') [exReaderPtr, exPort] =
       (None, Some (notePosition (Position fileSet0 100)
          (Errorf ''%s does not implement %s'' [TypeString intType, TypeString readerType])))"
proof -
  have u: "Underlying readerType = Interface [(''Read'', readSig)]"
    by (simp add: readerType_def)
  have pos: "ExprPos (wireSel 100 ''Bind'') = 100"
    by (simp add: wireSel_def)
  have yes: "Implements fileType [(''Read'', readSig)]"
    by (simp add: Implements_def fileType_def)
  have no: "\<not> Implements intType [(''Read'', readSig)]"
    by (simp add: Implements_def intType_def)
  have ne: "fileType \<noteq> readerType"
    by (simp add: fileType_def readerType_def)
  have 1: "processBind fileSet0 exInfo (wireSel 100 ''Bind'') [exReaderPtr, exFile] =
     (Some \<lparr>Iface = readerType, Provided = fileType, Binding_Pos = 100\<rparr>, None)"
    using yes ne by (simp add: ex_types processBind_def Let_def pos u Identical_def)
  from processBind_outcomes [where info = exInfo and ifaceArg = exReaderPtr and providedArg = exFile
      and fset = fileSet0 and callFun = "wireSel 100 ''Bind''", OF refl ex_types(1) u] yes ne
  have bound: "\<exists>b. processBind fileSet0 exInfo (wireSel 100 ''Bind'') [exReaderPtr, exFile] = (Some b, None)
      \<and> Iface b = readerType \<and> Provided b = fileType \<and> Implements (Provided b) [(''Read'', readSig)]"
    by (simp add: ex_types)
  from processBind_outcomes [where info = exInfo and ifaceArg = exReaderPtr and providedArg = exDefaultReader
      and fset = fileSet0 and callFun = "wireSel 100 ''Bind''", OF refl ex_types(1) u]
  have 2: "processBind fileSet0 exInfo (wireSel 100 ''Bind'') [exReaderPtr, exDefaultReader] =
       (None, Some (notePosition (Position fileSet0 100) (New ''cannot bind interface to itself'')))"
    by (simp add: ex_types pos)
  from processBind_outcomes [where info = exInfo and ifaceArg = exReaderPtr and providedArg = exPort
      and fset = fileSet0 and callFun = "wireSel 100 ''Bind''", OF refl ex_types(1) u] no
  have 3: "processBind fileSet0 exInfo (wireSel 100 ''Bind'') [exReaderPtr, exPort] =
       (None, Some (notePosition (Position fileSet0 100)
          (Errorf ''%s does not implement %s'' [TypeString intType, TypeString readerType])))"
    by (simp add: ex_types pos)
  from bound 1 2 3 yes no show ?thesis by simp
qed

section \<open>Value expressions\<close>

lemma valueVisit_node:
  "valueVisit info (Some n) ok = (if rejectedNode info n then (False, False) else (True, ok))"
  by (cases n) (auto simp: rejectedNode_def)

lemma fold_Inspect:
  assumes "\<And>c s. c \<in> set cs \<Longrightarrow> Inspect f c s = (s \<and> P c)"
  shows "fold (Inspect f) cs s = (s \<and> list_all P cs)"
  using assms by (induction cs arbitrary: s) auto

lemma list_all_concat: "list_all P (concat xss) = list_all (list_all P) xss"
  by (induction xss) auto

lemma Inspect_valueVisit:
  "Inspect (valueVisit info) n ok = (ok \<and> list_all (\<lambda>m. \<not> rejectedNode info m) (subnodes n))"
proof (induction n arbitrary: ok rule: measure_induct_rule [where f = size])
  case (less n)
  have kids: "Inspect (valueVisit info) c s = (s \<and> list_all (\<lambda>m. \<not> rejectedNode info m) (subnodes c))"
    if "c \<in> set (children n)" for c s
    using less [OF size_children [OF that]] .
  have fold: "fold (Inspect (valueVisit info)) (children n) s =
      (s \<and> list_all (\<lambda>c. list_all (\<lambda>m. \<not> rejectedNode info m) (subnodes c)) (children n))" for s
    by (rule fold_Inspect) (rule kids)
  show ?case
    by (subst Inspect.simps, subst subnodes.simps)
      (simp add: valueVisit_node fold list_all_concat list_all_iff)
qed

lemma complexity_check:
  "Inspect (valueVisit info) e True =
     (\<not> (containsReceive e \<or> containsSignatureCall info e \<or> containsUnlisted e))"
  by (auto simp add: Inspect_valueVisit containsReceive_def containsSignatureCall_def
      containsUnlisted_def rejectedNode_def list_all_iff list_ex_iff)

lemma subnodes_leaf: "children n = [] \<Longrightarrow> subnodes n = [n]"
  by (subst subnodes.simps) simp

lemma literalOrIdent_accepted:
  "literalOrIdent e \<Longrightarrow> list_all (\<lambda>m. \<not> rejectedNode info m) (subnodes e)"
  by (cases e rule: literalOrIdent.cases) (simp_all add: subnodes_leaf rejectedNode_def)

lemma structElement_accepted:
  "structElement e \<Longrightarrow> list_all (\<lambda>m. \<not> rejectedNode info m) (subnodes e)"
proof (cases e rule: structElement.cases)
  case (1 p k v)
  assume "structElement e"
  with 1 literalOrIdent_accepted [of k info] literalOrIdent_accepted [of v info]
  show ?thesis by (subst subnodes.simps) (simp add: rejectedNode_def)
qed (auto simp: literalOrIdent_accepted)

lemma typeIdent_accepted:
  "typeIdent e \<Longrightarrow> list_all (\<lambda>m. \<not> rejectedNode info m) (subnodes e)"
proof (cases e rule: typeIdent.cases)
  case (2 px nx objx p n obj)
  then show ?thesis
    by (simp add: subnodes.simps [of "SelectorExpr (Ident px nx objx) p n obj"]
        subnodes_leaf rejectedNode_def)
qed (simp_all add: subnodes_leaf rejectedNode_def)

lemma structLiteral_accepted:
  "structLiteral e \<Longrightarrow> list_all (\<lambda>m. \<not> rejectedNode info m) (subnodes e)"
proof (cases e rule: structLiteral.cases)
  case (1 ty lbrace elts)
  assume "structLiteral e"
  with 1 have ty: "typeIdent ty" and elts: "list_all structElement elts" by simp_all
  from elts have "list_all (\<lambda>c. list_all (\<lambda>m. \<not> rejectedNode info m) (subnodes c)) elts"
    using structElement_accepted [of _ info] by (auto simp add: list_all_iff)
  with 1 typeIdent_accepted [OF ty, of info] show ?thesis
    by (subst subnodes.simps) (auto simp add: rejectedNode_def list_all_concat list_all_iff)
qed simp_all

lemma processValue_cases:
  "processValue fset info callFun [e] =
     (if containsReceive e \<or> containsSignatureCall info e \<or> containsUnlisted e
      then tooComplex fset callFun
      else if isInterface (Underlying (TypeOf info e))
      then useInterfaceValue fset callFun (TypeOf info e)
      else (Some \<lparr>Value_Pos = ExprPos e, Value_Out = TypeOf info e, Value_expr = e,
                   Value_info = info\<rparr>, None))"
  by (simp add: processValue_def Let_def complexity_check tooComplex_def useInterfaceValue_def)

lemma exact_call_test:
  "callTestExact info e \<Longrightarrow> containsSignatureCall info e = containsFunctionCall e"
  by (auto simp add: callTestExact_def containsSignatureCall_def containsFunctionCall_def
      list_all_iff list_ex_iff)

lemma struct_not_interface: "isStruct t \<Longrightarrow> \<not> isInterface t"
  by (cases t) simp_all

lemma ex_subnodes:
  "subnodes exFuncLit =
     [exFuncLit, Node 160 FuncType [Node 164 FieldList []], Node 164 FieldList [], Node 167 Stmt []]"
  "subnodes exReceive = [exReceive, Ident 172 ''ch'' None]"
  "subnodes exCall = [exCall, exNewReader]"
  "subnodes exDefaultReader = [exDefaultReader]"
  "subnodes exPort = [exPort]"
  "subnodes exConversion = [exConversion, exStringName, exPort]"
  "subnodes exTickCall = [exTickCall, exTick]"
  by (simp_all add: subnodes.simps exFuncLit_def exReceive_def exCall_def exNewReader_def
      exDefaultReader_def exPort_def exConversion_def exStringName_def exTickCall_def exTick_def)

lemma ex_structLiteral: "structLiteral exStructLit"
  by (simp add: exStructLit_def exPort_def)

lemma ex_underlying:
  "\<not> isInterface (Underlying configType)" "isInterface (Underlying readerType)"
  "\<not> isInterface (Underlying intType)" "\<not> isInterface (Underlying stringType)"
  "isStruct (Underlying configType)"
  by (simp_all add: configType_def readerType_def intType_def stringType_def)

text \<open>
  The call test of the source is not the one of its comment "Only acceptable if it's a type
  conversion": \<open>tick()\<close>, a call of a variable of the named function type \<open>Ticker\<close>, is a
  function call and no conversion, and \<open>wire.Value\<close> accepts it, because the type recorded
  for \<open>tick\<close> is a \<open>*types.Named\<close> and not a \<open>*types.Signature\<close>.
\<close>

lemma named_function_call_accepted:
  "functionCall exTickCall
   \<and> \<not> signatureCall exInfo exTickCall
   \<and> processValue fileSet0 exInfo (wireSel 200 ''Value'') [exTickCall] =
       (Some \<lparr>Value_Pos = 230, Value_Out = intType, Value_expr = exTickCall,
              Value_info = exInfo\<rparr>, None)"
proof -
  have call: "functionCall exTickCall" "\<not> signatureCall exInfo exTickCall"
    by (simp_all add: exTickCall_def ex_types tickerType_def) (simp add: exTick_def)
  have "\<not> containsReceive exTickCall"
    unfolding containsReceive_def ex_subnodes by (simp add: exTickCall_def exTick_def)
  moreover have "\<not> containsSignatureCall exInfo exTickCall"
    unfolding containsSignatureCall_def ex_subnodes
    by (simp add: call) (simp add: exTick_def)
  moreover have "\<not> containsUnlisted exTickCall"
    unfolding containsUnlisted_def ex_subnodes by (simp add: exTickCall_def exTick_def)
  moreover have "ExprPos exTickCall = 230" by (simp add: exTickCall_def exTick_def)
  ultimately show ?thesis
    by (simp add: processValue_cases ex_types ex_underlying call)
qed

text \<open>
  C6, as amended. For every \<open>wire.Value\<close> call with one argument in which the operand of
  every function call is recorded with a function signature as its type and the operand of no
  type conversion is, the expression is rejected with a "too complex" error if and only if it
  contains a channel receive operation, a function call other than a type conversion, or a
  node of a type that the switch of \<open>processValue\<close> does not list (a function literal, for
  one). In particular a struct composite literal built only from literals and identifiers is
  accepted: the value is returned, with the position and the type of the literal and no
  error. And an expression containing a channel receive is rejected. What becomes of a call
  through a value of a named function type, as in \<open>named_function_call_accepted\<close>, is
  left out.
\<close>

theorem value_too_complex_iff:
  "(callTestExact info e \<longrightarrow>
      (processValue fset info callFun [e] = tooComplex fset callFun)
        = (containsReceive e \<or> containsFunctionCall e \<or> containsUnlisted e))
   \<and> (structLiteral e \<and> isStruct (Underlying (TypeOf info e)) \<longrightarrow>
        processValue fset info callFun [e] =
          (Some \<lparr>Value_Pos = ExprPos e, Value_Out = TypeOf info e, Value_expr = e,
                 Value_info = info\<rparr>, None))
   \<and> (containsReceive e \<longrightarrow> processValue fset info callFun [e] = tooComplex fset callFun)"
proof (intro conjI impI)
  assume "callTestExact info e"
  then show "(processValue fset info callFun [e] = tooComplex fset callFun)
        = (containsReceive e \<or> containsFunctionCall e \<or> containsUnlisted e)"
    by (simp add: processValue_cases exact_call_test tooComplex_def useInterfaceValue_def
        notePosition_def New_def)
next
  assume lit: "structLiteral e \<and> isStruct (Underlying (TypeOf info e))"
  then have "\<not> (containsReceive e \<or> containsSignatureCall info e \<or> containsUnlisted e)"
    using structLiteral_accepted [of e info]
    by (auto simp add: containsReceive_def containsSignatureCall_def containsUnlisted_def
        rejectedNode_def list_all_iff list_ex_iff)
  with lit show "processValue fset info callFun [e] =
          (Some \<lparr>Value_Pos = ExprPos e, Value_Out = TypeOf info e, Value_expr = e,
                 Value_info = info\<rparr>, None)"
    by (simp add: processValue_cases struct_not_interface)
next
  assume "containsReceive e"
  then show "processValue fset info callFun [e] = tooComplex fset callFun"
    by (simp add: processValue_cases)
qed

theorem value_too_complex_iff_witness:
  "callTestExact exInfo exCall \<and> containsFunctionCall exCall
   \<and> processValue fileSet0 exInfo (wireSel 200 ''Value'') [exCall] =
       tooComplex fileSet0 (wireSel 200 ''Value'')
   \<and> callTestExact exInfo exConversion
   \<and> processValue fileSet0 exInfo (wireSel 200 ''Value'') [exConversion] \<noteq>
       tooComplex fileSet0 (wireSel 200 ''Value'')
   \<and> structLiteral exStructLit \<and> isStruct (Underlying (TypeOf exInfo exStructLit))
   \<and> processValue fileSet0 exInfo (wireSel 200 ''Value'') [exStructLit] =
       (Some \<lparr>Value_Pos = 180, Value_Out = configType, Value_expr = exStructLit,
              Value_info = exInfo\<rparr>, None)
   \<and> containsReceive exReceive
   \<and> processValue fileSet0 exInfo (wireSel 200 ''Value'') [exReceive] =
       tooComplex fileSet0 (wireSel 200 ''Value'')"
proof -
  have exact1: "callTestExact exInfo exCall"
    unfolding callTestExact_def ex_subnodes
    by (simp add: exCall_def ex_types) (simp add: exNewReader_def)
  have call: "containsFunctionCall exCall"
    unfolding containsFunctionCall_def ex_subnodes by (simp add: exCall_def exNewReader_def)
  have exact2: "callTestExact exInfo exConversion"
    unfolding callTestExact_def ex_subnodes
    by (simp add: exConversion_def ex_types stringType_def)
      (simp add: exStringName_def exPort_def)
  have plain: "\<not> containsReceive exConversion" "\<not> containsFunctionCall exConversion"
    "\<not> containsUnlisted exConversion"
    unfolding containsReceive_def containsFunctionCall_def containsUnlisted_def ex_subnodes
    by (simp_all add: exConversion_def exStringName_def exPort_def)
  have recv: "containsReceive exReceive"
    unfolding containsReceive_def ex_subnodes by (simp add: exReceive_def)
  have struct: "isStruct (Underlying (TypeOf exInfo exStructLit))"
    by (simp add: ex_types ex_underlying)
  have pos: "ExprPos exStructLit = 180" by (simp add: exStructLit_def)
  from value_too_complex_iff [of exInfo exCall fileSet0 "wireSel 200 ''Value''"] exact1 call
  have 1: "processValue fileSet0 exInfo (wireSel 200 ''Value'') [exCall] =
       tooComplex fileSet0 (wireSel 200 ''Value'')" by blast
  from value_too_complex_iff [of exInfo exConversion fileSet0 "wireSel 200 ''Value''"] exact2 plain
  have 2: "processValue fileSet0 exInfo (wireSel 200 ''Value'') [exConversion] \<noteq>
       tooComplex fileSet0 (wireSel 200 ''Value'')" by blast
  from value_too_complex_iff [of exInfo exStructLit fileSet0 "wireSel 200 ''Value''"]
    ex_structLiteral struct
  have 3: "processValue fileSet0 exInfo (wireSel 200 ''Value'') [exStructLit] =
       (Some \<lparr>Value_Pos = 180, Value_Out = configType, Value_expr = exStructLit,
              Value_info = exInfo\<rparr>, None)"
    by (simp add: ex_types pos)
  from value_too_complex_iff [of exInfo exReceive fileSet0 "wireSel 200 ''Value''"] recv
  have 4: "processValue fileSet0 exInfo (wireSel 200 ''Value'') [exReceive] =
       tooComplex fileSet0 (wireSel 200 ''Value'')" by blast
  from exact1 call 1 exact2 2 ex_structLiteral struct 3 recv 4 show ?thesis by simp
qed

text \<open>
  C6 as it was stated fails for the function literal \<open>func() {}\<close>: it contains neither a
  channel receive nor a call of any sort, and \<open>wire.Value\<close> rejects it as too complex,
  because a function literal is none of the node types that the switch lists.
\<close>

theorem value_too_complex_counterexample:
  "processValue fileSet0 exInfo (wireSel 200 ''Value'') [exFuncLit] =
     tooComplex fileSet0 (wireSel 200 ''Value'')
   \<and> \<not> containsReceive exFuncLit
   \<and> \<not> containsFunctionCall exFuncLit"
proof -
  have "containsUnlisted exFuncLit"
    unfolding containsUnlisted_def ex_subnodes by (simp add: exFuncLit_def)
  moreover have "\<not> containsReceive exFuncLit"
    unfolding containsReceive_def ex_subnodes by (simp add: exFuncLit_def)
  moreover have "\<not> containsFunctionCall exFuncLit"
    unfolding containsFunctionCall_def ex_subnodes by (simp add: exFuncLit_def)
  ultimately show ?thesis by (simp add: processValue_cases)
qed

section \<open>Building a provider set\<close>

lemma remember_simps [simp]:
  "oc_fset (remember oc ref ent) = oc_fset oc"
  "oc_packages (remember oc ref ent) = oc_packages oc"
  "oc_objects (remember oc ref ent) = (oc_objects oc)(ref \<mapsto> ent)"
  by (simp_all add: remember_def)

lemma processFuncProvider_pair: "processFuncProvider fset fn = (p, []) \<Longrightarrow> p \<noteq> None"
  by (auto simp add: processFuncProvider_def Let_def split: sum.splits)

lemma processStructProvider_pair: "processStructProvider fset tn = (p, []) \<Longrightarrow> p \<noteq> None"
  by (auto simp add: processStructProvider_def Let_def split: sum.splits gotype.splits)

lemma processBind_pair: "processBind fset info callFun callArgs = (b, None) \<Longrightarrow> b \<noteq> None"
  by (auto simp add: processBind_def Let_def split: gotype.splits if_splits)

lemma processValue_pair: "processValue fset info callFun callArgs = (v, None) \<Longrightarrow> v \<noteq> None"
  by (auto simp add: processValue_def Let_def split: if_splits)

lemma processInterfaceValue_pair:
  "processInterfaceValue fset info callFun callArgs = (v, None) \<Longrightarrow> v \<noteq> None"
  by (auto simp add: processInterfaceValue_def Let_def split: gotype.splits if_splits)

lemma processNewSet_pair:
  "processNewSet an oc info pkgPath callFun callArgs args varName = Returns ((ps, []), oc1)
     \<Longrightarrow> ps \<noteq> None"
  by (auto simp add: processNewSet.simps Let_def split: outcome.splits prod.splits if_splits)

text \<open>
  The memo table stays well formed, and whatever \<open>get\<close> and \<open>processExpr\<close> return
  without an error is an item: with a well-formed table the default case of the type switch
  in \<open>processNewSet\<close> is never reached.
\<close>

lemma wfCache_remember:
  "wfCache oc \<Longrightarrow> (errs = [] \<longrightarrow> it \<noteq> None) \<Longrightarrow> wfCache (remember oc ref (it, errs))"
  by (auto simp add: wfCache_def)

lemma wfCache_cached:
  "wfCache oc \<Longrightarrow> oc_objects oc ref = Some (it, errs) \<Longrightarrow> errs = [] \<longrightarrow> it \<noteq> None"
  unfolding wfCache_def by blast

lemma storeEntry_Returns:
  "(storeEntry ref r = Returns ((it, errs), oc1))
     = (\<exists>oc0. r = Returns ((it, errs), oc0) \<and> oc1 = remember oc0 ref (it, errs))"
  by (auto simp add: storeEntry_def split: outcome.splits)

lemma cache_invariant:
  "wfCache oc \<longrightarrow> (\<forall>it errs oc1. get an oc obj = Returns ((it, errs), oc1)
      \<longrightarrow> wfCache oc1 \<and> (errs = [] \<longrightarrow> it \<noteq> None))"
  "wfCache oc \<longrightarrow> (\<forall>it errs oc1. processExpr an oc info pkgPath e varName = Returns ((it, errs), oc1)
      \<longrightarrow> wfCache oc1 \<and> (errs = [] \<longrightarrow> it \<noteq> None))"
  "wfCache oc \<longrightarrow> (\<forall>ps errs oc1.
      processNewSet an oc info pkgPath callFun callArgs args varName = Returns ((ps, errs), oc1)
      \<longrightarrow> wfCache oc1)"
  "wfCache oc \<longrightarrow> (\<forall>r oc1. processArgs an oc info pkgPath as pset ec = Returns (r, oc1)
      \<longrightarrow> wfCache oc1)"
proof (induction an oc obj and an oc info pkgPath e varName
    and an oc info pkgPath callFun callArgs args varName
    and an oc info pkgPath as pset ec
    rule: get_processExpr_processNewSet_processArgs.induct)
  case (1 an oc obj)
  show ?case
  proof (intro impI allI)
    fix it errs oc1
    assume wf: "wfCache oc" and ret: "get an oc obj = Returns ((it, errs), oc1)"
    from ret obtain p where p: "obj_Pkg obj = Some p"
      by (subst (asm) get.simps) (auto split: option.splits)
    show "wfCache oc1 \<and> (errs = [] \<longrightarrow> it \<noteq> None)"
    proof (cases "oc_objects oc (p, obj_Name obj)")
      case (Some ent)
      with ret p have "ent = (it, errs)" "oc1 = oc"
        by (subst (asm) get.simps, simp)+
      with wf Some wfCache_cached [of oc "(p, obj_Name obj)" it errs] show ?thesis by simp
    next
      case None
      note IH = 1 [OF p None]
      from ret p None obtain oc0 where
        inner: "(case obj of
                    ObjVar pkg name pos spec \<Rightarrow>
                      (case oc_packages oc p of
                         None \<Rightarrow> Panics ''nil pointer dereference''
                       | Some pinfo \<Rightarrow>
                           (case spec of
                              None \<Rightarrow> Returns ((None, [notProvider obj]), oc)
                            | Some (names, vals) \<Rightarrow>
                                if length vals = 0 then Returns ((None, [notProvider obj]), oc)
                                else
                                  (let i = nameIndex names name in
                                   if i < length vals
                                   then processExpr an oc pinfo p (vals ! i) name
                                   else Panics ''index out of range'')))
                  | ObjFunc fn \<Rightarrow>
                      (case processFuncProvider (oc_fset oc) fn of
                         (p, errs) \<Rightarrow> Returns ((map_option ItemProvider p, errs), oc))
                  | _ \<Rightarrow> Returns ((None, [notProvider obj]), oc)) = Returns ((it, errs), oc0)"
        and oc1: "oc1 = remember oc0 (p, obj_Name obj) (it, errs)"
        by (subst (asm) get.simps) (auto simp add: storeEntry_Returns)
      from inner wf IH have "wfCache oc0 \<and> (errs = [] \<longrightarrow> it \<noteq> None)"
        by (auto simp add: Let_def split: object.splits option.splits prod.splits if_splits
            dest: processFuncProvider_pair)
      with oc1 show ?thesis by (simp add: wfCache_remember)
    qed
  qed
next
  case (2 an oc info pkgPath expr0 varName)
  show ?case
  proof (cases "qualifiedIdentObject (Unparen expr0)")
    case (Some obj)
    note IH = "2.IH"(2) [OF refl refl refl Some]
    show ?thesis
      apply (subst processExpr.simps)
      using Some IH
      apply (auto simp add: Let_def mapErrors_def split: outcome.splits)
      done
  next
    case None
    show ?thesis
    proof (intro impI allI)
      fix it errs oc1
      assume wf: "wfCache oc"
        and ret: "processExpr an oc info pkgPath expr0 varName = Returns ((it, errs), oc1)"
      note IH = "2.IH"(1) [OF refl refl refl None]
      from ret None wf IH show "wfCache oc1 \<and> (errs = [] \<longrightarrow> it \<noteq> None)"
        apply (subst (asm) processExpr.simps)
        apply (auto simp add: Let_def mapErrors_def notePositionAll_def
          split: option.splits expr.splits outcome.splits prod.splits if_splits
          dest: processNewSet_pair processBind_pair processValue_pair processInterfaceValue_pair
            processStructProvider_pair)
        done
    qed
  qed
next
  case (3 an oc info pkgPath callFun callArgs args varName)
  then show ?case
    by (auto simp add: processNewSet.simps Let_def split: outcome.splits prod.splits if_splits)
next
  case (4 an oc info pkgPath pset ec)
  show ?case by simp
next
  case (5 an oc info pkgPath arg rest pset ec)
  show ?case
  proof (intro impI allI)
    fix r oc1
    assume wf: "wfCache oc"
      and ret: "processArgs an oc info pkgPath (arg # rest) pset ec = Returns (r, oc1)"
    from ret obtain it errs oc0 where
      first: "processExpr an oc info pkgPath arg [] = Returns ((it, errs), oc0)"
      by (cases "processExpr an oc info pkgPath arg []") auto
    from "5.IH"(1) wf first have wf0: "wfCache oc0" by blast
    show "wfCache oc1"
    proof (cases "0 < length errs")
      case True
      from "5.IH"(2) [OF first refl refl True] wf0 ret first True show ?thesis by simp
    next
      case False
      with ret first obtain x where x: "it = Some x" by (cases it) auto
      from "5.IH"(3) [OF first refl refl False x] wf0 ret first False x show ?thesis by simp
    qed
  qed
qed

text \<open>
  The loop over the arguments: when no argument panics, it returns with the errors of every
  argument appended to the collector, in the order of the arguments, and \<open>processNewSet\<close>
  returns them all when there is one.
\<close>

lemma processArgs_collects:
  "wfCache oc \<Longrightarrow> argsErrors an oc info pkgPath as = Returns es \<Longrightarrow>
     \<exists>pset1 oc1. processArgs an oc info pkgPath as pset ec =
       Returns ((pset1, \<lparr>errors = errors ec @ es\<rparr>), oc1)"
proof (induction as arbitrary: oc pset ec es)
  case Nil
  then show ?case by simp
next
  case (Cons a as)
  from Cons.prems(2) obtain it errs oc0 es0 where
    first: "processExpr an oc info pkgPath a [] = Returns ((it, errs), oc0)"
    and rest: "argsErrors an oc0 info pkgPath as = Returns es0" and es: "es = errs @ es0"
    by (auto split: outcome.splits prod.splits)
  from cache_invariant(2) [of oc an info pkgPath a "[]"] Cons.prems(1) first
  have wf0: "wfCache oc0" and item: "errs = [] \<longrightarrow> it \<noteq> None" by blast+
  show ?case
  proof (cases "errs = []")
    case True
    with item obtain x where "it = Some x" by auto
    with first True es Cons.IH [OF wf0 rest, of "appendItem pset x" ec] show ?thesis by simp
  next
    case False
    with first es Cons.IH [OF wf0 rest, of pset "ec_add ec errs"] show ?thesis
      by (simp add: ec_add_def)
  qed
qed

lemma processNewSet_collects:
  assumes "wfCache oc" and "argsErrors an oc info pkgPath callArgs = Returns es" and "es \<noteq> []"
  shows "\<exists>oc1. processNewSet an oc info pkgPath callFun callArgs args varName =
           Returns ((None, es), oc1)"
proof -
  from processArgs_collects [OF assms(1,2),
      of "ProviderSet (ExprPos callFun) pkgPath varName [] [] [] [] args None None" "\<lparr>errors = []\<rparr>"]
  obtain pset1 oc1 where
    "processArgs an oc info pkgPath callArgs
       (ProviderSet (ExprPos callFun) pkgPath varName [] [] [] [] args None None)
       \<lparr>errors = []\<rparr> = Returns ((pset1, \<lparr>errors = es\<rparr>), oc1)"
    by auto
  with assms(3) show ?thesis by (simp add: processNewSet.simps)
qed

text \<open>
  \<open>get\<close> answers from the memo table whenever it has an entry under the import path and
  the name of the object, whatever the object is.
\<close>

lemma get_cached:
  "obj_Pkg obj = Some importPath \<Longrightarrow> oc_objects oc (importPath, obj_Name obj) = Some ent \<Longrightarrow>
     get an oc obj = Returns (ent, oc)"
  by (simp add: get.simps)

lemma ex_wfCache: "wfCache exOc"
  by (simp add: wfCache_def exOc_def)

lemma ex_args:
  assumes "oc_fset oc = fileSet0"
  shows "oc_objects oc (''example.com/app'', ''NewPair'') = None \<Longrightarrow>
      processExpr an oc exInfo ''example.com/app'' exIdNewPair [] =
        Returns ((None, [exErrNewPair]), remember oc (''example.com/app'', ''NewPair'') exEntryPair)"
    and "oc_objects oc (''example.com/app'', ''NewLabel'') = None \<Longrightarrow>
      processExpr an oc exInfo ''example.com/app'' exIdNewLabel [] =
        Returns ((Some (ItemProvider exProviderLabel), []),
                 remember oc (''example.com/app'', ''NewLabel'') exEntryLabel)"
    and "oc_objects oc (''example.com/app'', ''NewSum'') = None \<Longrightarrow>
      processExpr an oc exInfo ''example.com/app'' exIdNewSum [] =
        Returns ((None, [exErrNewSum]), remember oc (''example.com/app'', ''NewSum'') exEntrySum)"
proof -
  have pair: "processFuncProvider fileSet0 fnNoResult =
      (None, [notePosition (Position fileSet0 42)
         (Errorf ''wrong signature for provider %s: %v''
            [Str ''NewPair'', Cause (New ''no return values'')])])"
    by (simp add: processFuncProvider_def funcOutput_def fnNoResult_def Let_def)
  have label: "processFuncProvider fileSet0 fnLabel = (Some exProviderLabel, [])"
    by (simp add: processFuncProvider_def funcOutput_def fnLabel_def Let_def Identical_def
        exProviderLabel_def)
  have sum: "processFuncProvider fileSet0 fnTwoInts =
      (None, [notePosition (Position fileSet0 50)
         (Errorf ''provider has multiple parameters of type %s'' [TypeString intType])])"
    by (simp add: processFuncProvider_def funcOutput_def fnTwoInts_def Let_def Identical_def)
  have pkgs: "fn_Pkg fnNoResult = Some ''example.com/app''" "fn_Pkg fnLabel = Some ''example.com/app''"
    "fn_Pkg fnTwoInts = Some ''example.com/app''"
    by (simp_all add: fnNoResult_def fnLabel_def fnTwoInts_def)
  have names: "fn_Name fnNoResult = ''NewPair''" "fn_Name fnLabel = ''NewLabel''"
    "fn_Name fnTwoInts = ''NewSum''"
    by (simp_all add: fnNoResult_def fnLabel_def fnTwoInts_def)
  show "oc_objects oc (''example.com/app'', ''NewPair'') = None \<Longrightarrow>
      processExpr an oc exInfo ''example.com/app'' exIdNewPair [] =
        Returns ((None, [exErrNewPair]), remember oc (''example.com/app'', ''NewPair'') exEntryPair)"
    by (simp add: processExpr.simps get.simps storeEntry_def exIdNewPair_def assms pair pkgs names
        mapErrors_def exErrNewPair_def exEntryPair_def Let_def)
  show "oc_objects oc (''example.com/app'', ''NewLabel'') = None \<Longrightarrow>
      processExpr an oc exInfo ''example.com/app'' exIdNewLabel [] =
        Returns ((Some (ItemProvider exProviderLabel), []),
                 remember oc (''example.com/app'', ''NewLabel'') exEntryLabel)"
    by (simp add: processExpr.simps get.simps storeEntry_def exIdNewLabel_def assms label pkgs names
        mapErrors_def exEntryLabel_def Let_def)
  show "oc_objects oc (''example.com/app'', ''NewSum'') = None \<Longrightarrow>
      processExpr an oc exInfo ''example.com/app'' exIdNewSum [] =
        Returns ((None, [exErrNewSum]), remember oc (''example.com/app'', ''NewSum'') exEntrySum)"
    by (simp add: processExpr.simps get.simps storeEntry_def exIdNewSum_def assms sum pkgs names
        mapErrors_def exErrNewSum_def exEntrySum_def Let_def)
qed

lemma ex_caches:
  "oc_fset exOc = fileSet0" "oc_fset exOcPair = fileSet0" "oc_fset exOcPairLabel = fileSet0"
  "oc_fset exOcAll = fileSet0" "oc_fset exOcLabel = fileSet0"
  "oc_objects exOc ref = None"
  "oc_objects exOcPair (''example.com/app'', ''NewLabel'') = None"
  "oc_objects exOcPairLabel (''example.com/app'', ''NewSum'') = None"
  by (simp_all add: exOc_def exOcPair_def exOcPairLabel_def exOcAll_def exOcLabel_def)

lemma ex_nil: "processExpr an oc info pkgPath exIdNil [] = Panics ''nil pointer dereference''"
  by (simp add: processExpr.simps get.simps exIdNil_def Let_def)

text \<open>
  C7 states that, when a provider set is built from a \<open>wire.NewSet\<close> or \<open>wire.Build\<close> call,
  the errors arising from distinct arguments of the call are all collected and returned
  together, an error in one argument not preventing the remaining arguments from being
  processed. The code breaks this at \<open>wire.NewSet(NewPair, nil)\<close>: \<open>NewPair\<close> returns
  nothing and is no provider, and alone it is reported with its error; with the argument
  \<open>nil\<close> after it, \<open>get\<close> reads \<open>obj.Pkg().Path()\<close> of an object without a package, the
  call panics and the error of \<open>NewPair\<close> is never returned. Elsewhere the file tests
  \<open>Pkg()\<close> against nil before it reads the path.
\<close>

theorem processNewSet_nil_argument_panics:
  "processNewSet exAnalysis exOc exInfo ''example.com/app'' (wireSel 300 ''NewSet'')
     [exIdNewPair] None ''Set'' = Returns ((None, [exErrNewPair]), exOcPair)
   \<and> processNewSet exAnalysis exOc exInfo ''example.com/app'' (wireSel 300 ''NewSet'')
       [exIdNewPair, exIdNil] None ''Set'' = Panics ''nil pointer dereference''"
  by (simp add: processNewSet.simps ex_args [OF ex_caches(1)] ex_caches ex_nil ec_add_def
      exOcPair_def)

text \<open>
  Without such an argument the errors of all arguments come back: for the whole call
  \<open>(wire.NewSet(NewPair, NewLabel, NewSum))\<close>, seen as an expression, the selector is
  recognised as Wire's and both errors are returned with the position of the call.
\<close>

lemma ex_isWireImport:
  "isWireImport ''github.com/google/go-cloud/wire''"
  "isWireImport ''example.com/app/vendor/github.com/google/go-cloud/wire''"
  "\<not> isWireImport ''example.com/app''"
  by code_simp+

lemma ex_newset_call:
  "processExpr exAnalysis exOc exInfo ''example.com/app''
     (ParenExpr 299 (CallExpr (wireSel 300 ''NewSet'') [exIdNewPair, exIdNewLabel, exIdNewSum])) ''Set''
   = Returns ((None, [notePosition (Position fileSet0 299) exErrNewPair,
                      notePosition (Position fileSet0 299) exErrNewSum]), exOcAll)"
proof -
  have args: "processArgs exAnalysis exOc exInfo ''example.com/app''
      [exIdNewPair, exIdNewLabel, exIdNewSum] pset \<lparr>errors = []\<rparr> =
      Returns ((appendItem pset (ItemProvider exProviderLabel),
                \<lparr>errors = [exErrNewPair, exErrNewSum]\<rparr>), exOcAll)" for pset
    using ex_args(1) [OF ex_caches(1), of exAnalysis] ex_args(2) [OF ex_caches(2), of exAnalysis]
      ex_args(3) [OF ex_caches(3), of exAnalysis]
    by (simp add: ex_caches ec_add_def exOcPair_def [symmetric] exOcPairLabel_def [symmetric]
        exOcAll_def [symmetric])
  show ?thesis
    by (subst processExpr.simps)
      (simp add: wireSel_def ex_isWireImport processNewSet.simps args
        notePositionAll_def mapErrors_def Let_def ex_caches del: processArgs.simps)
qed

section \<open>No partial set next to errors\<close>

text \<open>
  C8. Whenever building a provider set returns a non-empty error list, whether from processing
  the call's arguments, from building the merged provider map, or from the acyclicity check,
  the returned \<open>ProviderSet\<close> is nil: no partially merged set with a usable index is ever
  exposed alongside errors.
\<close>

theorem processNewSet_no_partial_set:
  "processNewSet an oc info pkgPath callFun callArgs args varName = Returns ((pset, errs), oc1) \<Longrightarrow>
     errs \<noteq> [] \<Longrightarrow> pset = None"
  by (auto simp add: processNewSet.simps Let_def split: outcome.splits prod.splits if_splits)

lemma ex_newset_runs:
  "processNewSet exAnalysis exOc exInfo ''example.com/app'' (wireSel 300 ''NewSet'')
     [exIdNewPair, exIdNewLabel] None ''Set'' = Returns ((None, [exErrNewPair]), exOcPairLabel)"
  "processNewSet exAnalysisConflict exOc exInfo ''example.com/app'' (wireSel 300 ''NewSet'')
     [exIdNewLabel] None ''Set'' = Returns ((None, [New ''multiple bindings for string'']), exOcLabel)"
  "processNewSet exAnalysisCycle exOc exInfo ''example.com/app'' (wireSel 300 ''NewSet'')
     [exIdNewLabel] None ''Set'' = Returns ((None, [New ''cycle for string'']), exOcLabel)"
proof -
  have two: "processArgs exAnalysis exOc exInfo ''example.com/app'' [exIdNewPair, exIdNewLabel]
      pset \<lparr>errors = []\<rparr> =
      Returns ((appendItem pset (ItemProvider exProviderLabel), \<lparr>errors = [exErrNewPair]\<rparr>),
               exOcPairLabel)" for pset
    using ex_args(1) [OF ex_caches(1), of exAnalysis] ex_args(2) [OF ex_caches(2), of exAnalysis]
    by (simp add: ex_caches ec_add_def exOcPair_def [symmetric] exOcPairLabel_def [symmetric])
  have one: "processArgs an exOc exInfo ''example.com/app'' [exIdNewLabel] pset \<lparr>errors = []\<rparr> =
      Returns ((appendItem pset (ItemProvider exProviderLabel), \<lparr>errors = []\<rparr>), exOcLabel)"
    for pset and an :: "unit analysis"
    using ex_args(2) [OF ex_caches(1), of an]
    by (simp add: ex_caches exOcLabel_def [symmetric])
  show "processNewSet exAnalysis exOc exInfo ''example.com/app'' (wireSel 300 ''NewSet'')
     [exIdNewPair, exIdNewLabel] None ''Set'' = Returns ((None, [exErrNewPair]), exOcPairLabel)"
    by (simp add: processNewSet.simps two del: processArgs.simps)
  show "processNewSet exAnalysisConflict exOc exInfo ''example.com/app'' (wireSel 300 ''NewSet'')
     [exIdNewLabel] None ''Set'' = Returns ((None, [New ''multiple bindings for string'']), exOcLabel)"
    by (simp add: processNewSet.simps one exAnalysisConflict_def del: processArgs.simps)
  show "processNewSet exAnalysisCycle exOc exInfo ''example.com/app'' (wireSel 300 ''NewSet'')
     [exIdNewLabel] None ''Set'' = Returns ((None, [New ''cycle for string'']), exOcLabel)"
    by (simp add: processNewSet.simps one exAnalysisCycle_def del: processArgs.simps)
qed

theorem processNewSet_no_partial_set_witness:
  "processNewSet exAnalysis exOc exInfo ''example.com/app'' (wireSel 300 ''NewSet'')
     [exIdNewPair, exIdNewLabel] None ''Set'' = Returns ((None, [exErrNewPair]), exOcPairLabel)
   \<and> processNewSet exAnalysisConflict exOc exInfo ''example.com/app'' (wireSel 300 ''NewSet'')
     [exIdNewLabel] None ''Set'' = Returns ((None, [New ''multiple bindings for string'']), exOcLabel)
   \<and> processNewSet exAnalysisCycle exOc exInfo ''example.com/app'' (wireSel 300 ''NewSet'')
     [exIdNewLabel] None ''Set'' = Returns ((None, [New ''cycle for string'']), exOcLabel)"
  using processNewSet_no_partial_set [OF ex_newset_runs(1)]
    processNewSet_no_partial_set [OF ex_newset_runs(2)]
    processNewSet_no_partial_set [OF ex_newset_runs(3)]
  by (simp add: ex_newset_runs)

section \<open>Looking up a provided type\<close>

text \<open>
  C9. For every \<open>ProviderSet\<close> and every type \<open>t\<close> absent from its merged index, \<open>For(t)\<close>
  returns the zero \<open>ProvidedType\<close>, for which \<open>IsNil()\<close> is true and \<open>IsProvider()\<close>,
  \<open>IsValue()\<close> and \<open>IsArg()\<close> are all false, without panicking or returning an error; and for
  every \<open>ProvidedType\<close>, each accessor \<open>Provider()\<close>, \<open>Value()\<close>, \<open>Arg()\<close> panics exactly when
  the corresponding predicate \<open>IsProvider()\<close>, \<open>IsValue()\<close>, \<open>IsArg()\<close> is false.
\<close>

theorem For_absent_and_accessors:
  "(At (providerMap set0) t = None \<longrightarrow>
      For set0 t = zeroProvidedType
      \<and> IsNil (For set0 t) \<and> \<not> IsProvider (For set0 t)
      \<and> \<not> IsValue (For set0 t) \<and> \<not> IsArg (For set0 t))
   \<and> panics (pt_Provider pt) = (\<not> IsProvider pt)
   \<and> panics (pt_Value pt) = (\<not> IsValue pt)
   \<and> panics (pt_Arg pt) = (\<not> IsArg pt)"
proof -
  have absent: "For set0 t = zeroProvidedType" if "At (providerMap set0) t = None"
    using that by (simp add: For_def)
  have zero: "IsNil zeroProvidedType" "\<not> IsProvider zeroProvidedType"
    "\<not> IsValue zeroProvidedType" "\<not> IsArg zeroProvidedType"
    by (simp_all add: zeroProvidedType_def IsNil_def IsProvider_def IsValue_def IsArg_def)
  have p: "panics (pt_Provider pt) = (\<not> IsProvider pt)"
    by (cases "pt_p pt") (simp_all add: pt_Provider_def IsProvider_def)
  have v: "panics (pt_Value pt) = (\<not> IsValue pt)"
    by (cases "pt_v pt") (simp_all add: pt_Value_def IsValue_def)
  have a: "panics (pt_Arg pt) = (\<not> IsArg pt)"
    by (cases "pt_a pt") (simp_all add: pt_Arg_def IsArg_def)
  from absent zero p v a show ?thesis by simp
qed

theorem For_absent_and_accessors_witness:
  "At (providerMap exSet) intType = None
   \<and> For exSet intType = zeroProvidedType
   \<and> IsNil (For exSet intType)
   \<and> \<not> IsProvider (For exSet intType) \<and> \<not> IsValue (For exSet intType)
   \<and> \<not> IsArg (For exSet intType)
   \<and> panics (pt_Provider (For exSet intType))
   \<and> \<not> panics (pt_Arg (For exSet stringType))"
proof -
  have absent: "At (providerMap exSet) intType = None"
    by (simp add: At_def exSet_def exIndex_def intType_def stringType_def)
  have present: "IsArg (For exSet stringType)"
    by (simp add: For_def At_def exSet_def exIndex_def IsArg_def)
  from absent For_absent_and_accessors [of exSet intType "For exSet intType"]
  have 1: "For exSet intType = zeroProvidedType \<and> IsNil (For exSet intType)
      \<and> \<not> IsProvider (For exSet intType) \<and> \<not> IsValue (For exSet intType)
      \<and> \<not> IsArg (For exSet intType) \<and> panics (pt_Provider (For exSet intType))"
    by blast
  from present For_absent_and_accessors [of exSet intType "For exSet stringType"]
  have 2: "\<not> panics (pt_Arg (For exSet stringType))" by blast
  from absent 1 2 show ?thesis by blast
qed

section \<open>Values of interface type\<close>




end
